theory Spec2Isabelle
  imports Main "HOL-Library.Word"
begin

unbundle bit_operations_syntax

section \<open>Addresses (Go package net, IPv4 only)\<close>

text \<open>
  Both plugins work on IPv4 only (\<^verbatim>\<open>syscall.AF_INET\<close>, \<^verbatim>\<open>net.CIDRMask(31, 32)\<close>).
  A \<^verbatim>\<open>net.IP\<close> is a byte slice that may be nil: it is \<open>None\<close> or a 32-bit address.
  A \<^verbatim>\<open>net.IPMask\<close> is a 4-byte mask.
\<close>

type_synonym ipv4 = "32 word"
type_synonym IP = "ipv4 option"
type_synonym IPMask = "32 word"

record IPNet =
  IP :: IP
  Mask :: IPMask

text \<open>The address \<open>a.b.c.d\<close>.\<close>

definition ipv4 :: "32 word \<Rightarrow> 32 word \<Rightarrow> 32 word \<Rightarrow> 32 word \<Rightarrow> ipv4" where
  "ipv4 a b c d = ((a * 256 + b) * 256 + c) * 256 + d"

text \<open>\<^verbatim>\<open>net.CIDRMask(ones, bits)\<close> for \<open>bits = 32\<close> and \<open>ones \<le> 32\<close>.\<close>

definition CIDRMask :: "nat \<Rightarrow> nat \<Rightarrow> IPMask" where
  "CIDRMask ones bits = push_bit (bits - ones) (- 1)"

text \<open>\<^verbatim>\<open>ip.Mask(mask)\<close>: nil stays nil, otherwise the bytes are and-ed.\<close>

definition IP_Mask :: "IP \<Rightarrow> IPMask \<Rightarrow> IP" where
  "IP_Mask ip m = (case ip of None \<Rightarrow> None | Some a \<Rightarrow> Some (a AND m))"

subsection \<open>String forms\<close>

fun digit :: "nat \<Rightarrow> char" where
  "digit n = (''0123456789abcdef'' ! (n mod 16))"

function uitoa :: "nat \<Rightarrow> string" where
  "uitoa n = (if n < 10 then [digit n] else uitoa (n div 10) @ [digit (n mod 10)])"
  by pat_completeness auto
termination
  by (relation "measure id") auto

declare uitoa.simps [simp del]

definition octets :: "32 word \<Rightarrow> nat list" where
  "octets a = [unat (drop_bit 24 a), unat (drop_bit 16 a AND 255),
               unat (drop_bit 8 a AND 255), unat (a AND 255)]"

definition IP_String :: "IP \<Rightarrow> string" where
  "IP_String ip = (case ip of None \<Rightarrow> ''<nil>''
     | Some a \<Rightarrow>
         uitoa (unat (drop_bit 24 a)) @ ''.'' @ uitoa (unat (drop_bit 16 a AND 255)) @ ''.'' @
         uitoa (unat (drop_bit 8 a AND 255)) @ ''.'' @ uitoa (unat (a AND 255)))"

text \<open>\<^verbatim>\<open>simpleMaskLength\<close>: the prefix length of a mask of leading ones, none otherwise.\<close>

definition simpleMaskLength :: "IPMask \<Rightarrow> nat option" where
  "simpleMaskLength m = find (\<lambda>n. CIDRMask n 32 = m) [0..<33]"

definition IPMask_String :: "IPMask \<Rightarrow> string" where
  "IPMask_String m = concat (map (\<lambda>b. [digit (b div 16), digit (b mod 16)]) (octets m))"

text \<open>
  \<^verbatim>\<open>(*IPNet).String()\<close>: address, a slash, and the prefix length (or the mask in hex when
  it is not a prefix mask); \<^verbatim>\<open><nil>\<close> when the address is nil.
\<close>

definition IPNet_String :: "IPNet \<Rightarrow> string" where
  "IPNet_String n = (case IP n of None \<Rightarrow> ''<nil>''
     | Some a \<Rightarrow> IP_String (Some a) @ ''/'' @
         (case simpleMaskLength (Mask n) of
            None \<Rightarrow> IPMask_String (Mask n)
          | Some l \<Rightarrow> uitoa l))"

section \<open>Errors\<close>

text \<open>
  Go's \<^verbatim>\<open>error\<close> values. \<open>Errno\<close> is a raw \<^verbatim>\<open>syscall.Errno\<close>, as netlink returns it.
  Every \<^verbatim>\<open>fmt.Errorf\<close> of the two plugins is a constructor that keeps its arguments;
  the last four are the errors of the helper packages.
\<close>

datatype errno = EEXIST | ENOENT | ENODEV | EPERM | EINVAL | EBUSY | ENOMEM

datatype error =
    Errno errno
  | CouldNotListAddrs error
  | AddrConflict string IPNet
  | CouldNotAddAddr string error
  | CouldNotLookup string error
  | NotABridge string
  | CouldNotAdd string error
  | FailedToLookup string error
  | FailedToConnect string string error
  | FailedToCreateBridge string error
  | ErrorParsingContainerID error
  | FailedToLoad string error
  | FailedToAddAddrToVeth error
  | FailedToAddRoute error
  | BadUUID
  | ConfigError
  | DelegateError
  | KernelOpError error
  | NamespaceError error

text \<open>\<^verbatim>\<open>os.IsExist\<close> on the errors modelled here: true for the raw errno \<open>EEXIST\<close> only.\<close>

definition os_IsExist :: "error \<Rightarrow> bool" where
  "os_IsExist e = (e = Errno EEXIST)"

section \<open>The kernel's networking state\<close>

datatype LinkType = Bridge | Veth | Device

record Link =
  Name :: string
  Type :: LinkType
  Up :: bool
  Master :: "string option"

record Route =
  Dst :: IPNet
  Gw :: IP
  Dev :: string

text \<open>A device of a namespace: its attributes, and its addresses in the order added.\<close>

record Device =
  attrs :: Link
  ips :: "IPNet list"

record namespace =
  devices :: "Device list"
  routes :: "Route list"

datatype nsref = HostNS | NSPath string

text \<open>Every call made to the kernel, with its arguments, in the order made.\<close>

datatype call =
    CLinkAdd string LinkType
  | CVethAdd string string
  | CLinkSetNs string nsref
  | CLinkByName string
  | CLinkSetUp string
  | CLinkSetMaster string string
  | CLinkDel string
  | CAddrList string
  | CAddrAdd string IPNet
  | CRouteAdd IPNet IP string
  | CSetNS nsref

record IPConfig =
  ipIP :: IPNet
  Gateway :: IP

record IfConfig =
  ifIP :: IP

record descriptor =
  d_name :: string
  d_type :: string
  d_brName :: "string option"
  d_isGW :: "bool option"
  d_ipam :: "string option"

text \<open>
  The world a plugin process runs in: the network namespaces by handle, the namespace the
  thread is in, the kernel calls that fail for a reason of their own (\<open>faults\<close>: a call
  listed there returns that errno and changes nothing), the log of kernel calls made, the
  network descriptors by path, the address-management plugins by name (\<open>None\<close>: the
  plugin runs and fails) and what has been printed as the result.
\<close>

record world =
  spaces :: "nsref \<Rightarrow> namespace option"
  current :: nsref
  faults :: "(call \<times> errno) list"
  calls :: "call list"
  files :: "(string \<times> descriptor) list"
  plugins :: "(string \<times> IPConfig option) list"
  stdout :: "IfConfig list"

definition empty_ns :: namespace where
  "empty_ns = \<lparr>devices = [], routes = []\<rparr>"

definition get_ns :: "nsref \<Rightarrow> world \<Rightarrow> namespace" where
  "get_ns r w = (case spaces w r of Some n \<Rightarrow> n | None \<Rightarrow> empty_ns)"

definition put_ns :: "nsref \<Rightarrow> namespace \<Rightarrow> world \<Rightarrow> world" where
  "put_ns r n w = w\<lparr>spaces := (spaces w)(r \<mapsto> n)\<rparr>"

definition curns :: "world \<Rightarrow> namespace" where
  "curns w = get_ns (current w) w"

definition record_call :: "call \<Rightarrow> world \<Rightarrow> world" where
  "record_call c w = w\<lparr>calls := calls w @ [c]\<rparr>"

definition fault :: "world \<Rightarrow> call \<Rightarrow> errno option" where
  "fault w c = map_of (faults w) c"

definition find_dev :: "string \<Rightarrow> namespace \<Rightarrow> Device option" where
  "find_dev n ns = find (\<lambda>d. Name (attrs d) = n) (devices ns)"

definition has_link :: "string \<Rightarrow> namespace \<Rightarrow> bool" where
  "has_link n ns = (find_dev n ns \<noteq> None)"

definition upd_dev :: "string \<Rightarrow> (Device \<Rightarrow> Device) \<Rightarrow> namespace \<Rightarrow> namespace" where
  "upd_dev n f ns =
     ns\<lparr>devices := map (\<lambda>d. if Name (attrs d) = n then f d else d) (devices ns)\<rparr>"

definition del_dev :: "string \<Rightarrow> namespace \<Rightarrow> namespace" where
  "del_dev n ns =
     \<lparr>devices = filter (\<lambda>d. Name (attrs d) \<noteq> n) (devices ns),
      routes = filter (\<lambda>r. Dev r \<noteq> n) (routes ns)\<rparr>"

text \<open>
  A kernel call that changes the thread's namespace, and one that only reads it. Both log
  the call; a faulted call fails with the fault's errno.
\<close>

definition kernel_op ::
  "call \<Rightarrow> (namespace \<Rightarrow> errno + namespace) \<Rightarrow> world \<Rightarrow> error option \<times> world" where
  "kernel_op c f w =
     (case fault w c of
        Some e \<Rightarrow> (Some (Errno e), record_call c w)
      | None \<Rightarrow> (case f (curns w) of
          Inl e \<Rightarrow> (Some (Errno e), record_call c w)
        | Inr n \<Rightarrow> (None, put_ns (current w) n (record_call c w))))"

definition kernel_query ::
  "call \<Rightarrow> (namespace \<Rightarrow> errno + 'a) \<Rightarrow> world \<Rightarrow> (error + 'a) \<times> world" where
  "kernel_query c f w =
     (case fault w c of
        Some e \<Rightarrow> (Inl (Errno e), record_call c w)
      | None \<Rightarrow> (case f (curns w) of
          Inl e \<Rightarrow> (Inl (Errno e), record_call c w)
        | Inr x \<Rightarrow> (Inr x, record_call c w)))"

subsection \<open>Package netlink\<close>

text \<open>
  Modelled from the spec: the vendored netlink package is missing from the sources, and
  the spec names the kernel's configuration interface only at its boundary (device
  creation, lookup, address assignment, route programming). Each call acts on the
  namespace the thread is in and names its device by the handle's name. A new device has
  no address; a call on a device that does not exist fails with \<open>ENODEV\<close>, the creation
  of a device whose name is taken with \<open>EEXIST\<close>.
\<close>

definition LinkAdd :: "Link \<Rightarrow> world \<Rightarrow> error option \<times> world" where
  "LinkAdd l = kernel_op (CLinkAdd (Name l) (Type l))
     (\<lambda>ns. if has_link (Name l) ns then Inl EEXIST
            else Inr (ns\<lparr>devices := devices ns @ [\<lparr>attrs = l, ips = []\<rparr>]\<rparr>))"

definition LinkByName :: "string \<Rightarrow> world \<Rightarrow> (error + Link) \<times> world" where
  "LinkByName n = kernel_query (CLinkByName n)
     (\<lambda>ns. case find_dev n ns of None \<Rightarrow> Inl ENODEV | Some d \<Rightarrow> Inr (attrs d))"

definition LinkSetUp :: "Link \<Rightarrow> world \<Rightarrow> error option \<times> world" where
  "LinkSetUp l = kernel_op (CLinkSetUp (Name l))
     (\<lambda>ns. if has_link (Name l) ns
            then Inr (upd_dev (Name l) (\<lambda>d. d\<lparr>attrs := (attrs d)\<lparr>Up := True\<rparr>\<rparr>) ns)
            else Inl ENODEV)"

definition LinkSetMaster :: "Link \<Rightarrow> Link \<Rightarrow> world \<Rightarrow> error option \<times> world" where
  "LinkSetMaster l m = kernel_op (CLinkSetMaster (Name l) (Name m))
     (\<lambda>ns. if has_link (Name l) ns \<and> has_link (Name m) ns
            then Inr (upd_dev (Name l) (\<lambda>d. d\<lparr>attrs := (attrs d)\<lparr>Master := Some (Name m)\<rparr>\<rparr>) ns)
            else Inl ENODEV)"

text \<open>Deleting a device removes its addresses and the routes through it.\<close>

definition LinkDel :: "Link \<Rightarrow> world \<Rightarrow> error option \<times> world" where
  "LinkDel l = kernel_op (CLinkDel (Name l))
     (\<lambda>ns. if has_link (Name l) ns then Inr (del_dev (Name l) ns) else Inl ENODEV)"

text \<open>\<^verbatim>\<open>netlink.AddrList(link, syscall.AF_INET)\<close>: the device's addresses, in order.\<close>

definition AddrList :: "Link \<Rightarrow> world \<Rightarrow> (error + IPNet list) \<times> world" where
  "AddrList l = kernel_query (CAddrList (Name l))
     (\<lambda>ns. case find_dev (Name l) ns of None \<Rightarrow> Inl ENODEV | Some d \<Rightarrow> Inr (ips d))"

text \<open>The kernel rejects a nil address, and an address the device already has.\<close>

definition AddrAdd :: "Link \<Rightarrow> IPNet \<Rightarrow> world \<Rightarrow> error option \<times> world" where
  "AddrAdd l a = kernel_op (CAddrAdd (Name l) a)
     (\<lambda>ns. case find_dev (Name l) ns of
              None \<Rightarrow> Inl ENODEV
            | Some d \<Rightarrow>
                if IP a = None then Inl EINVAL
                else if a \<in> set (ips d) then Inl EEXIST
                else Inr (upd_dev (Name l) (\<lambda>d. d\<lparr>ips := ips d @ [a]\<rparr>) ns))"

definition RouteAdd :: "Route \<Rightarrow> world \<Rightarrow> error option \<times> world" where
  "RouteAdd r = kernel_op (CRouteAdd (Dst r) (Gw r) (Dev r))
     (\<lambda>ns. if \<not> has_link (Dev r) ns then Inl ENODEV
            else if r \<in> set (routes ns) then Inl EEXIST
            else Inr (ns\<lparr>routes := routes ns @ [r]\<rparr>))"

text \<open>\<^verbatim>\<open>setns\<close>: the thread enters the namespace the handle refers to.\<close>

definition SetNS :: "nsref \<Rightarrow> world \<Rightarrow> error option \<times> world" where
  "SetNS r w =
     (case fault w (CSetNS r) of
        Some e \<Rightarrow> (Some (Errno e), record_call (CSetNS r) w)
      | None \<Rightarrow> (case spaces w r of
          None \<Rightarrow> (Some (Errno EINVAL), record_call (CSetNS r) w)
        | Some _ \<Rightarrow> (None, (record_call (CSetNS r) w)\<lparr>current := r\<rparr>)))"

text \<open>
  Moving a device of the thread's namespace into another namespace: it leaves with its
  attributes and without its addresses and routes.
\<close>

definition LinkSetNs :: "Link \<Rightarrow> nsref \<Rightarrow> world \<Rightarrow> error option \<times> world" where
  "LinkSetNs l r w =
     (let c = CLinkSetNs (Name l) r in
      case fault w c of
        Some e \<Rightarrow> (Some (Errno e), record_call c w)
      | None \<Rightarrow> (case (find_dev (Name l) (curns w), spaces w r) of
          (None, _) \<Rightarrow> (Some (Errno ENODEV), record_call c w)
        | (Some d, None) \<Rightarrow> (Some (Errno EINVAL), record_call c w)
        | (Some d, Some tgt) \<Rightarrow>
            if r = current w then (None, record_call c w)
            else if has_link (Name l) tgt then (Some (Errno EEXIST), record_call c w)
            else (None,
              put_ns r (tgt\<lparr>devices := devices tgt @ [d\<lparr>ips := []\<rparr>]\<rparr>)
                (put_ns (current w) (del_dev (Name l) (curns w)) (record_call c w)))))"

section \<open>The helper packages\<close>

subsection \<open>Container identifiers (appc \<^verbatim>\<open>types.UUID\<close>)\<close>

datatype UUID = UUID string

definition hexval :: "char \<Rightarrow> nat option" where
  "hexval c = map_of (zip ''0123456789abcdefABCDEF''
     [0, 1, 2, 3, 4, 5, 6, 7, 8, 9, 10, 11, 12, 13, 14, 15, 10, 11, 12, 13, 14, 15]) c"

text \<open>
  \<^verbatim>\<open>types.NewUUID\<close>: the hyphens are dropped, and 32 hexadecimal digits must remain.
  The value keeps the digits as \<^verbatim>\<open>%x\<close> prints them.
\<close>

definition NewUUID :: "string \<Rightarrow> error + UUID" where
  "NewUUID s =
     (let t = filter (\<lambda>c. c \<noteq> CHR ''-'') s in
      if length t \<noteq> 32 then Inl BadUUID
      else if list_all (\<lambda>c. hexval c \<noteq> None) t
        then Inr (UUID (map (\<lambda>c. case hexval c of Some v \<Rightarrow> digit v | None \<Rightarrow> c) t))
        else Inl BadUUID)"

fun UUID_String :: "UUID \<Rightarrow> string" where
  "UUID_String (UUID h) =
     take 8 h @ ''-'' @ take 4 (drop 8 h) @ ''-'' @ take 4 (drop 12 h) @ ''-'' @
     take 4 (drop 16 h) @ ''-'' @ drop 20 h"

subsection \<open>Package rktnet: the network descriptor and the result\<close>

record rktnet_Net =
  NetName :: string
  NetType :: string
  IPAM_Type :: string

text \<open>
  Modelled from the spec: \<^verbatim>\<open>rktnet.LoadNet\<close> is missing from the sources. It
  deserializes the descriptor at the path into the configuration it is given, leaving a
  field the descriptor does not set as it was; it fails with a configuration error when
  the descriptor cannot be read or lacks the address-management plugin identifier.
\<close>

definition LoadNet ::
  "string \<Rightarrow> 'a rktnet_Net_scheme \<Rightarrow> world \<Rightarrow> error + 'a rktnet_Net_scheme" where
  "LoadNet path n w =
     (case map_of (files w) path of
        None \<Rightarrow> Inl ConfigError
      | Some d \<Rightarrow> (case d_ipam d of
          None \<Rightarrow> Inl ConfigError
        | Some t \<Rightarrow> Inr (n\<lparr>NetName := d_name d, NetType := d_type d, IPAM_Type := t\<rparr>)))"

text \<open>
  Modelled from the spec: \<^verbatim>\<open>rktnet.PrintIfConfig\<close> is missing from the sources. It
  emits the assigned address as the operation's result.
\<close>

definition PrintIfConfig :: "IfConfig \<Rightarrow> world \<Rightarrow> error option \<times> world" where
  "PrintIfConfig c w = (None, w\<lparr>stdout := stdout w @ [c]\<rparr>)"

subsection \<open>Package ipam\<close>

text \<open>
  Modelled from the spec: \<^verbatim>\<open>ipam.ExecPlugin\<close> is missing from the sources. It runs
  the named address-management plugin and returns its address assignment; it fails with
  a delegate error when the plugin cannot be located or fails. It makes no kernel call.
\<close>

definition ExecPlugin :: "string \<Rightarrow> world \<Rightarrow> error + IPConfig" where
  "ExecPlugin t w =
     (case map_of (plugins w) t of
        None \<Rightarrow> Inl DelegateError
      | Some None \<Rightarrow> Inl DelegateError
      | Some (Some c) \<Rightarrow> Inr c)"

text \<open>
  Modelled from the spec: \<^verbatim>\<open>ipam.ApplyIPConfig\<close> is missing from the sources. It
  applies the assigned address to the named interface of the thread's namespace: the
  interface is looked up, brought up and given the address.
\<close>

definition ApplyIPConfig :: "string \<Rightarrow> IPConfig \<Rightarrow> world \<Rightarrow> error option \<times> world" where
  "ApplyIPConfig ifName ipConf w =
     (case LinkByName ifName w of
        (Inl e, w1) \<Rightarrow> (Some (KernelOpError e), w1)
      | (Inr l, w1) \<Rightarrow>
          (case LinkSetUp l w1 of
             (Some e, w2) \<Rightarrow> (Some (KernelOpError e), w2)
           | (None, w2) \<Rightarrow>
               (case AddrAdd l (ipIP ipConf) w2 of
                  (Some e, w3) \<Rightarrow> (Some (KernelOpError e), w3)
                | (None, w3) \<Rightarrow> (None, w3))))"

subsection \<open>Package util\<close>

text \<open>
  Modelled from the spec: \<^verbatim>\<open>util.NextIP\<close> is missing from the sources. It is the
  next address: host offset \<open>+1\<close> from the address given.
\<close>

definition NextIP :: "IP \<Rightarrow> IP" where
  "NextIP ip = (case ip of None \<Rightarrow> None | Some a \<Rightarrow> Some (a + 1))"

text \<open>
  Modelled from the spec: \<^verbatim>\<open>util.WithNetNSPath\<close> is missing from the sources. It
  captures the thread's namespace, switches into the namespace the handle refers to,
  runs the function (which is handed the captured namespace), and restores the captured
  namespace whether or not the function failed. An error of the function is returned
  after the restoration; a failure to enter or to restore is a namespace error. The
  function's result stands for the variables a Go closure assigns.
\<close>

definition WithNetNSPath ::
  "string \<Rightarrow> (nsref \<Rightarrow> world \<Rightarrow> (error + 'a) \<times> world) \<Rightarrow> world \<Rightarrow> (error + 'a) \<times> world" where
  "WithNetNSPath nspath f w =
     (case spaces w (NSPath nspath) of
        None \<Rightarrow> (Inl (NamespaceError (Errno ENOENT)), w)
      | Some _ \<Rightarrow>
          (let thisNS = current w in
           case SetNS (NSPath nspath) w of
             (Some e, w1) \<Rightarrow> (Inl (NamespaceError e), w1)
           | (None, w1) \<Rightarrow>
               (case f thisNS w1 of (r, w2) \<Rightarrow>
                  (case SetNS thisNS w2 of
                     (Some e, w3) \<Rightarrow> (Inl (NamespaceError e), w3)
                   | (None, w3) \<Rightarrow> (r, w3)))))"

text \<open>
  Modelled from the spec: the derivation of the host-side name inside
  \<^verbatim>\<open>util.SetupVeth\<close> is missing from the sources. The name is derived
  deterministically from the entropy and fits the kernel's limit of 15 characters; a
  truncation stands here for the hash the spec suggests.
\<close>

definition vethName :: "string \<Rightarrow> string" where
  "vethName entropy = ''veth'' @ take 11 entropy"

text \<open>
  Modelled from the spec: \<^verbatim>\<open>util.SetupVeth\<close> is missing from the sources. Inside
  the thread's namespace it creates a veth pair, the container end under the name given
  and the host end under the derived name, and moves the host end into the host
  namespace as part of the same call. Both call sites pass no address.
\<close>

definition SetupVeth ::
  "string \<Rightarrow> string \<Rightarrow> IPNet option \<Rightarrow> nsref \<Rightarrow> world \<Rightarrow> (error + Link \<times> Link) \<times> world" where
  "SetupVeth entropy contVethName ipn hostNS w =
     (let hostVeth = \<lparr>Name = vethName entropy, Type = Veth, Up = False, Master = None\<rparr>;
          contVeth = \<lparr>Name = contVethName, Type = Veth, Up = False, Master = None\<rparr>
      in case kernel_op (CVethAdd (Name hostVeth) contVethName)
                (\<lambda>ns. if has_link (Name hostVeth) ns \<or> has_link contVethName ns
                         \<or> Name hostVeth = contVethName
                       then Inl EEXIST
                       else Inr (ns\<lparr>devices := devices ns @
                              [\<lparr>attrs = hostVeth, ips = []\<rparr>, \<lparr>attrs = contVeth, ips = []\<rparr>]\<rparr>)) w of
           (Some e, w1) \<Rightarrow> (Inl (KernelOpError e), w1)
         | (None, w1) \<Rightarrow>
             (case LinkSetNs hostVeth hostNS w1 of
                (Some e, w2) \<Rightarrow> (Inl (KernelOpError e), w2)
              | (None, w2) \<Rightarrow> (Inr (hostVeth, contVeth), w2)))"

text \<open>
  Modelled from the spec: \<^verbatim>\<open>util.AddHostRoute\<close> is missing from the sources. It
  installs a route to the destination via the device, through the gateway if one is
  given; the kernel's error is returned as it is.
\<close>

definition AddHostRoute :: "IPNet \<Rightarrow> IP \<Rightarrow> Link \<Rightarrow> world \<Rightarrow> error option \<times> world" where
  "AddHostRoute ipn gw dev = RouteAdd \<lparr>Dst = ipn, Gw = gw, Dev = Name dev\<rparr>"

text \<open>
  Modelled from the spec: \<^verbatim>\<open>util.DelLinkByName\<close> is missing from the sources. It
  deletes the named interface of the thread's namespace if present; absence of the
  interface is success, not error.
\<close>

definition DelLinkByName :: "string \<Rightarrow> world \<Rightarrow> error option \<times> world" where
  "DelLinkByName ifName w =
     (case LinkByName ifName w of
        (Inl e, w1) \<Rightarrow> (if e = Errno ENODEV then (None, w1) else (Some (KernelOpError e), w1))
      | (Inr l, w1) \<Rightarrow>
          (case LinkDel l w1 of
             (Some e, w2) \<Rightarrow> (Some (KernelOpError e), w2)
           | (None, w2) \<Rightarrow> (None, w2)))"

section \<open>The bridge plugin (networking/net/bridge/bridge.go)\<close>

definition defaultBrName :: string where
  "defaultBrName = ''rkt0''"

record Net = rktnet_Net +
  BrName :: string
  IsGW :: bool

text \<open>
  Modelled from the spec: \<^verbatim>\<open>rktnet.LoadNet\<close>, missing from the sources, on the
  bridge plugin's \<^verbatim>\<open>Net\<close>: the descriptor's link-device name and gateway-mode flag
  are read as well, and a field the descriptor does not set keeps its value.
\<close>

definition LoadNet_bridge :: "string \<Rightarrow> Net \<Rightarrow> world \<Rightarrow> error + Net" where
  "LoadNet_bridge path n w =
     (case LoadNet path n w of
        Inl e \<Rightarrow> Inl e
      | Inr n1 \<Rightarrow>
          (case map_of (files w) path of
             None \<Rightarrow> Inl ConfigError
           | Some d \<Rightarrow>
               Inr (n1\<lparr>BrName := (case d_brName d of Some b \<Rightarrow> b | None \<Rightarrow> BrName n1),
                        IsGW := (case d_isGW d of Some g \<Rightarrow> g | None \<Rightarrow> IsGW n1)\<rparr>)))"

definition ensureBridgeAddr :: "Link \<Rightarrow> IPNet \<Rightarrow> world \<Rightarrow> error option \<times> world" where
  "ensureBridgeAddr br ipn w =
     (case AddrList br w of (r, w1) \<Rightarrow>
        (case (case r of
                 Inl err \<Rightarrow> (if err \<noteq> Errno ENOENT then Inl (CouldNotListAddrs err) else Inr [])
               | Inr addrs \<Rightarrow> Inr addrs) of
           Inl e \<Rightarrow> (Some e, w1)
         | Inr addrs \<Rightarrow>
             if length addrs > 0 then
               (if list_ex (\<lambda>a. IPNet_String a = IPNet_String ipn) addrs
                then (None, w1)
                else (Some (AddrConflict (Name br) ipn), w1))
             else
               (case AddrAdd br ipn w1 of
                  (Some err, w2) \<Rightarrow> (Some (CouldNotAddAddr (Name br) err), w2)
                | (None, w2) \<Rightarrow> (None, w2))))"

definition bridgeByName :: "string \<Rightarrow> world \<Rightarrow> (error + Link) \<times> world" where
  "bridgeByName name w =
     (case LinkByName name w of
        (Inl err, w1) \<Rightarrow> (Inl (CouldNotLookup name err), w1)
      | (Inr l, w1) \<Rightarrow>
          (if Type l \<noteq> Bridge then (Inl (NotABridge name), w1)
           else (Inr l, w1)))"

text \<open>
  Where the Go function returns the bridge together with the error of
  \<open>ensureBridgeAddr\<close>, the result here is the error: the one caller drops the bridge.
\<close>

definition ensureBridge :: "string \<Rightarrow> IPNet option \<Rightarrow> world \<Rightarrow> (error + Link) \<times> world" where
  "ensureBridge brName ipn w =
     (let br = \<lparr>Name = brName, Type = Bridge, Up = False, Master = None\<rparr> in
      case (case LinkAdd br w of
              (Some err, w1) \<Rightarrow>
                (if err \<noteq> Errno EEXIST then (Inl (CouldNotAdd brName err), w1)
                 else bridgeByName brName w1)
            | (None, w1) \<Rightarrow> (Inr br, w1)) of
        (Inl e, w2) \<Rightarrow> (Inl e, w2)
      | (Inr br, w2) \<Rightarrow>
          (case LinkSetUp br w2 of
             (Some err, w3) \<Rightarrow> (Inl err, w3)
           | (None, w3) \<Rightarrow>
               (case ipn of
                  Some n \<Rightarrow>
                    (case ensureBridgeAddr br n w3 of
                       (Some e, w4) \<Rightarrow> (Inl e, w4)
                     | (None, w4) \<Rightarrow> (Inr br, w4))
                | None \<Rightarrow> (Inr br, w3))))"

definition setupVeth ::
  "UUID \<Rightarrow> string \<Rightarrow> Link \<Rightarrow> string \<Rightarrow> IPConfig \<Rightarrow> world \<Rightarrow> error option \<times> world" where
  "setupVeth contID netns br ifName ipConf w =
     (case WithNetNSPath netns
             (\<lambda>hostNS v.
                case SetupVeth (UUID_String contID) ifName None hostNS v of
                  (Inl err, v1) \<Rightarrow> (Inl err, v1)
                | (Inr (hostVeth, contVeth), v1) \<Rightarrow>
                    (case ApplyIPConfig ifName ipConf v1 of
                       (Some err, v2) \<Rightarrow> (Inl err, v2)
                     | (None, v2) \<Rightarrow> (Inr (Name hostVeth), v2))) w of
        (Inl err, w1) \<Rightarrow> (Some err, w1)
      | (Inr hostVethName, w1) \<Rightarrow>
          (case LinkByName hostVethName w1 of
             (Inl err, w2) \<Rightarrow> (Some (FailedToLookup hostVethName err), w2)
           | (Inr hostVeth, w2) \<Rightarrow>
               (case LinkSetMaster hostVeth br w2 of
                  (Some err, w3) \<Rightarrow> (Some (FailedToConnect hostVethName (Name br) err), w3)
                | (None, w3) \<Rightarrow> (None, w3))))"

definition calcGatewayIP :: "IPNet \<Rightarrow> IP" where
  "calcGatewayIP ipn = (let nid = IP_Mask (IP ipn) (Mask ipn) in NextIP nid)"

definition setupBridge :: "Net \<Rightarrow> IPConfig \<Rightarrow> world \<Rightarrow> (error + Link) \<times> world" where
  "setupBridge n ipamConf w =
     (let gwn =
        (if IsGW n then
           (let gw = (if Gateway ipamConf \<noteq> None then Gateway ipamConf
                      else calcGatewayIP (ipIP ipamConf))
            in Some \<lparr>IP = gw, Mask = Mask (ipIP ipamConf)\<rparr>)
         else None)
      in case ensureBridge (BrName n) gwn w of
           (Inl err, w1) \<Rightarrow> (Inl (FailedToCreateBridge (BrName n) err), w1)
         | (Inr br, w1) \<Rightarrow> (Inr br, w1))"

definition bridge_cmdAdd ::
  "string \<Rightarrow> string \<Rightarrow> string \<Rightarrow> string \<Rightarrow> world \<Rightarrow> error option \<times> world" where
  "bridge_cmdAdd contID netns netConf ifName w =
     (case NewUUID contID of
        Inl err \<Rightarrow> (Some (ErrorParsingContainerID err), w)
      | Inr cid \<Rightarrow>
          (case LoadNet_bridge netConf
                  \<lparr>NetName = [], NetType = [], IPAM_Type = [],
                   BrName = defaultBrName, IsGW = False\<rparr> w of
             Inl err \<Rightarrow> (Some (FailedToLoad netConf err), w)
           | Inr n \<Rightarrow>
               (case ExecPlugin (IPAM_Type n) w of
                  Inl err \<Rightarrow> (Some err, w)
                | Inr ipConf \<Rightarrow>
                    (case setupBridge n ipConf w of
                       (Inl err, w1) \<Rightarrow> (Some err, w1)
                     | (Inr br, w1) \<Rightarrow>
                         (case setupVeth cid netns br ifName ipConf w1 of
                            (Some err, w2) \<Rightarrow> (Some err, w2)
                          | (None, w2) \<Rightarrow>
                              PrintIfConfig \<lparr>ifIP = IP (ipIP ipConf)\<rparr> w2)))))"

definition bridge_cmdDel ::
  "string \<Rightarrow> string \<Rightarrow> string \<Rightarrow> string \<Rightarrow> world \<Rightarrow> error option \<times> world" where
  "bridge_cmdDel contID netns netConf ifName w =
     (case WithNetNSPath netns
             (\<lambda>hostNS v. case DelLinkByName ifName v of
                            (Some err, v1) \<Rightarrow> (Inl err, v1)
                          | (None, v1) \<Rightarrow> (Inr (), v1)) w of
        (Inl err, w1) \<Rightarrow> (Some err, w1)
      | (Inr u, w1) \<Rightarrow> (None, w1))"

subsection \<open>The process: environment, log and exit status\<close>

datatype logline = Line string | ErrLine string error

record outcome =
  status :: nat
  logged :: "logline list"
  after :: world

definition Getenv :: "(string \<times> string) list \<Rightarrow> string \<Rightarrow> string" where
  "Getenv env k = (case map_of env k of Some v \<Rightarrow> v | None \<Rightarrow> [])"

text \<open>\<^verbatim>\<open>os.Environ()\<close> as \<^verbatim>\<open>log.Print\<close> formats it: \<^verbatim>\<open>[K=v K=v]\<close>.\<close>

fun unwords :: "string list \<Rightarrow> string" where
  "unwords [] = []"
| "unwords [x] = x"
| "unwords (x # y # ys) = x @ '' '' @ unwords (y # ys)"

definition Environ :: "(string \<times> string) list \<Rightarrow> string" where
  "Environ env = ''['' @ unwords (map (\<lambda>(k, v). k @ ''='' @ v) env) @ '']''"

text \<open>The end of both \<^verbatim>\<open>main\<close> functions: a failed command is logged with its verb.\<close>

definition finish :: "string \<Rightarrow> error option \<times> world \<Rightarrow> outcome" where
  "finish cmd r =
     (case r of
        (Some err, w) \<Rightarrow> \<lparr>status = 1, logged = [ErrLine cmd err], after = w\<rparr>
      | (None, w) \<Rightarrow> \<lparr>status = 0, logged = [], after = w\<rparr>)"

definition bridge_main :: "(string \<times> string) list \<Rightarrow> world \<Rightarrow> outcome" where
  "bridge_main env w =
     (let cmd = Getenv env ''RKT_NETPLUGIN_COMMAND'';
          contID = Getenv env ''RKT_NETPLUGIN_CONTID'';
          netns = Getenv env ''RKT_NETPLUGIN_NETNS'';
          ifName = Getenv env ''RKT_NETPLUGIN_IFNAME'';
          netConf = Getenv env ''RKT_NETPLUGIN_NETCONF''
      in if cmd = [] \<or> contID = [] \<or> netns = [] \<or> ifName = [] \<or> netConf = [] then
           \<lparr>status = 1,
            logged = [Line ''Required env variable missing'', Line (''Env: '' @ Environ env)],
            after = w\<rparr>
         else if cmd = ''ADD'' then finish cmd (bridge_cmdAdd contID netns netConf ifName w)
         else if cmd = ''DEL'' then finish cmd (bridge_cmdDel contID netns netConf ifName w)
         else \<lparr>status = 1, logged = [Line (''Unknown RKT_NETPLUGIN_COMMAND: '' @ cmd)],
               after = w\<rparr>)"

section \<open>The point-to-point plugin (networking/net/veth/veth.go)\<close>

definition veth_cmdAdd ::
  "string \<Rightarrow> string \<Rightarrow> string \<Rightarrow> string \<Rightarrow> string \<Rightarrow> world \<Rightarrow> error option \<times> world" where
  "veth_cmdAdd contID netns netConf ifName args w =
     (case LoadNet netConf \<lparr>NetName = [], NetType = [], IPAM_Type = []\<rparr> w of
        Inl err \<Rightarrow> (Some (FailedToLoad netConf err), w)
      | Inr conf \<Rightarrow>
          (case ExecPlugin (IPAM_Type conf) w of
             Inl err \<Rightarrow> (Some err, w)
           | Inr ipConf \<Rightarrow>
               (case WithNetNSPath netns
                       (\<lambda>hostNS v.
                          let entropy = contID @ ifName in
                          case SetupVeth entropy ifName None hostNS v of
                            (Inl err, v1) \<Rightarrow> (Inl err, v1)
                          | (Inr (hostVeth, contVeth), v1) \<Rightarrow>
                              (case ApplyIPConfig ifName ipConf v1 of
                                 (Some err, v2) \<Rightarrow> (Inl err, v2)
                               | (None, v2) \<Rightarrow> (Inr (Name hostVeth), v2))) w of
                  (Inl err, w1) \<Rightarrow> (Some err, w1)
                | (Inr hostVethName, w1) \<Rightarrow>
                    (case LinkByName hostVethName w1 of
                       (Inl err, w2) \<Rightarrow> (Some (FailedToLookup hostVethName err), w2)
                     | (Inr hostVeth, w2) \<Rightarrow>
                         (let ipn = \<lparr>IP = Gateway ipConf, Mask = CIDRMask 31 32\<rparr> in
                          case AddrAdd hostVeth ipn w2 of
                            (Some err, w3) \<Rightarrow> (Some (FailedToAddAddrToVeth err), w3)
                          | (None, w3) \<Rightarrow>
                              (case AddHostRoute ipn None hostVeth w3 of (r, w4) \<Rightarrow>
                                 (case r of
                                    Some err \<Rightarrow>
                                      if \<not> os_IsExist err then (Some (FailedToAddRoute err), w4)
                                      else PrintIfConfig \<lparr>ifIP = IP (ipIP ipConf)\<rparr> w4
                                  | None \<Rightarrow> PrintIfConfig \<lparr>ifIP = IP (ipIP ipConf)\<rparr> w4)))))))"

definition veth_cmdDel ::
  "string \<Rightarrow> string \<Rightarrow> string \<Rightarrow> string \<Rightarrow> string \<Rightarrow> world \<Rightarrow> error option \<times> world" where
  "veth_cmdDel contID netns netConf ifName args w =
     (case WithNetNSPath netns
             (\<lambda>hostNS v. case DelLinkByName ifName v of
                            (Some err, v1) \<Rightarrow> (Inl err, v1)
                          | (None, v1) \<Rightarrow> (Inr (), v1)) w of
        (Inl err, w1) \<Rightarrow> (Some err, w1)
      | (Inr u, w1) \<Rightarrow> (None, w1))"

definition veth_main :: "(string \<times> string) list \<Rightarrow> world \<Rightarrow> outcome" where
  "veth_main env w =
     (let cmd = Getenv env ''RKT_NETPLUGIN_COMMAND'';
          contID = Getenv env ''RKT_NETPLUGIN_CONTID'';
          netns = Getenv env ''RKT_NETPLUGIN_NETNS'';
          args = Getenv env ''RKT_NETPLUGIN_ARGS'';
          ifName = Getenv env ''RKT_NETPLUGIN_IFNAME'';
          netConf = Getenv env ''RKT_NETPLUGIN_NETCONF''
      in if cmd = [] \<or> contID = [] \<or> netns = [] \<or> ifName = [] \<or> netConf = [] then
           \<lparr>status = 1,
            logged = [Line ''Required env variable missing'', Line (''Env: '' @ Environ env)],
            after = w\<rparr>
         else if cmd = ''ADD'' then finish cmd (veth_cmdAdd contID netns netConf ifName args w)
         else if cmd = ''DEL'' then finish cmd (veth_cmdDel contID netns netConf ifName args w)
         else \<lparr>status = 1, logged = [Line (''Unknown RKT_NETPLUGIN_COMMAND: '' @ cmd)],
               after = w\<rparr>)"

section \<open>Predicates on logs\<close>

text \<open>A kernel call that deletes a device.\<close>

fun is_LinkDel :: "call \<Rightarrow> bool" where
  "is_LinkDel (CLinkDel n) = True"
| "is_LinkDel c = False"

text \<open>The first string occurs in the second.\<close>

fun is_infix :: "string \<Rightarrow> string \<Rightarrow> bool" where
  "is_infix p [] = (p = [])"
| "is_infix p (x # xs) = (take (length p) (x # xs) = p \<or> is_infix p xs)"

section \<open>The gateway as the specification words it\<close>

text \<open>
  The gateway address in the specification's words, to be compared with what
  \<open>setupBridge\<close> computes: the gateway the address-management plugin supplied when there
  is one, otherwise the assigned address masked to its network identifier, plus one.
\<close>

definition spec_gateway :: "IPConfig \<Rightarrow> IP" where
  "spec_gateway c =
     (case Gateway c of
        Some g \<Rightarrow> Some g
      | None \<Rightarrow> (case IP (ipIP c) of None \<Rightarrow> None | Some a \<Rightarrow> Some ((a AND Mask (ipIP c)) + 1)))"

section \<open>Example worlds\<close>

text \<open>
  A host with an empty host namespace and one empty container namespace, the thread in
  the host namespace, a healthy kernel, five descriptors and three address-management
  plugins: \<open>test-ipam\<close> assigns \<open>10.2.0.5/24\<close> and no gateway, \<open>gw-ipam\<close> assigns the
  same address and the gateway \<open>10.2.0.1\<close>, \<open>bad-ipam\<close> fails.
\<close>

definition ex_ip :: IPNet where
  "ex_ip = \<lparr>IP = Some (ipv4 10 2 0 5), Mask = CIDRMask 24 32\<rparr>"

definition ex_gw :: IPNet where
  "ex_gw = \<lparr>IP = Some (ipv4 10 2 0 1), Mask = CIDRMask 24 32\<rparr>"

definition ex_cid :: string where
  "ex_cid = ''6733c088-a507-4694-aabf-f8cc3e5b8a81''"

definition ex_veth :: string where
  "ex_veth = ''veth6733c088-a5''"

definition ex_rkt0 :: Link where
  "ex_rkt0 = \<lparr>Name = ''rkt0'', Type = Bridge, Up = False, Master = None\<rparr>"

definition ex_world :: world where
  "ex_world =
     \<lparr>spaces = [HostNS \<mapsto> empty_ns, NSPath ''/ns/c1'' \<mapsto> empty_ns],
      current = HostNS,
      faults = [],
      calls = [],
      files =
        [(''/net/bridge.conf'',
            \<lparr>d_name = ''default'', d_type = ''bridge'', d_brName = Some ''rkt0'',
             d_isGW = Some True, d_ipam = Some ''test-ipam''\<rparr>),
         (''/net/plain.conf'',
            \<lparr>d_name = ''plain'', d_type = ''bridge'', d_brName = None,
             d_isGW = None, d_ipam = Some ''test-ipam''\<rparr>),
         (''/net/ptp.conf'',
            \<lparr>d_name = ''ptp'', d_type = ''veth'', d_brName = None,
             d_isGW = None, d_ipam = Some ''gw-ipam''\<rparr>),
         (''/net/ptp-nogw.conf'',
            \<lparr>d_name = ''ptp-nogw'', d_type = ''veth'', d_brName = None,
             d_isGW = None, d_ipam = Some ''test-ipam''\<rparr>),
         (''/net/bad.conf'',
            \<lparr>d_name = ''bad'', d_type = ''veth'', d_brName = None,
             d_isGW = None, d_ipam = Some ''bad-ipam''\<rparr>)],
      plugins =
        [(''test-ipam'', Some \<lparr>ipIP = ex_ip, Gateway = None\<rparr>),
         (''gw-ipam'', Some \<lparr>ipIP = ex_ip, Gateway = Some (ipv4 10 2 0 1)\<rparr>),
         (''bad-ipam'', None)],
      stdout = []\<rparr>"

text \<open>The same host with a device \<open>rkt0\<close> of the given type and addresses.\<close>

definition ex_with :: "LinkType \<Rightarrow> IPNet list \<Rightarrow> world" where
  "ex_with t as =
     ex_world\<lparr>spaces := (spaces ex_world)(HostNS \<mapsto>
       \<lparr>devices = [\<lparr>attrs = ex_rkt0\<lparr>Type := t, Up := True\<rparr>, ips = as\<rparr>], routes = []\<rparr>)\<rparr>"

text \<open>The same host with kernel calls that fail.\<close>

definition ex_faulty :: "(call \<times> errno) list \<Rightarrow> world" where
  "ex_faulty fs = ex_world\<lparr>faults := fs\<rparr>"

definition ex_net :: "bool \<Rightarrow> Net" where
  "ex_net gw = \<lparr>NetName = ''default'', NetType = ''bridge'', IPAM_Type = ''test-ipam'',
                BrName = ''rkt0'', IsGW = gw\<rparr>"

text \<open>An invocation of \<^verbatim>\<open>ADD\<close> that lacks the namespace handle, and one with an unknown verb.\<close>

definition ex_env_no_netns :: "(string \<times> string) list" where
  "ex_env_no_netns =
     [(''RKT_NETPLUGIN_COMMAND'', ''ADD''), (''RKT_NETPLUGIN_CONTID'', ex_cid),
      (''RKT_NETPLUGIN_IFNAME'', ''eth0''), (''RKT_NETPLUGIN_NETCONF'', ''/net/bridge.conf'')]"

definition ex_env_verb :: "(string \<times> string) list" where
  "ex_env_verb =
     [(''RKT_NETPLUGIN_COMMAND'', ''CHECK''), (''RKT_NETPLUGIN_CONTID'', ex_cid),
      (''RKT_NETPLUGIN_NETNS'', ''/ns/c1''), (''RKT_NETPLUGIN_IFNAME'', ''eth0''),
      (''RKT_NETPLUGIN_NETCONF'', ''/net/bridge.conf'')]"

text \<open>The same host where the kernel answers the host route with \<open>EEXIST\<close>.\<close>

definition ex_route_exists :: world where
  "ex_route_exists = ex_faulty
     [(CRouteAdd \<lparr>IP = Some (ipv4 10 2 0 1), Mask = CIDRMask 31 32\<rparr> None ex_veth, EEXIST)]"

section \<open>Facts about the kernel model\<close>

lemma record_call_simps:
  "calls (record_call c w) = calls w @ [c]"
  "spaces (record_call c w) = spaces w"
  "current (record_call c w) = current w"
  "faults (record_call c w) = faults w"
  "files (record_call c w) = files w"
  "plugins (record_call c w) = plugins w"
  "stdout (record_call c w) = stdout w"
  by (simp_all add: record_call_def)

lemma curns_record_call: "curns (record_call c w) = curns w"
  by (simp add: curns_def get_ns_def record_call_def)

lemma fault_record_call: "fault (record_call c w) = fault w"
  by (simp add: fault_def record_call_def fun_eq_iff)

lemma put_ns_simps:
  "calls (put_ns r n w) = calls w"
  "current (put_ns r n w) = current w"
  "faults (put_ns r n w) = faults w"
  "files (put_ns r n w) = files w"
  "plugins (put_ns r n w) = plugins w"
  "stdout (put_ns r n w) = stdout w"
  "spaces (put_ns r n w) = (spaces w)(r \<mapsto> n)"
  by (simp_all add: put_ns_def)

lemma fault_put_ns: "fault (put_ns r n w) = fault w"
  by (simp add: fault_def put_ns_def fun_eq_iff)

lemma curns_put_ns: "r = current w \<Longrightarrow> curns (put_ns r n w) = n"
  by (simp add: curns_def get_ns_def put_ns_def)

lemma kernel_op_cases:
  assumes "kernel_op c f w = (r, w')"
  obtains (fail) e where "r = Some (Errno e)" "w' = record_call c w"
      "fault w c = Some e \<or> (fault w c = None \<and> f (curns w) = Inl e)"
    | (ok) n where "r = None" "fault w c = None" "f (curns w) = Inr n"
      "w' = put_ns (current w) n (record_call c w)"
  using assms by (auto simp: kernel_op_def split: option.splits sum.splits)

lemma kernel_op_calls: "calls (snd (kernel_op c f w)) = calls w @ [c]"
  by (simp add: kernel_op_def record_call_simps put_ns_simps split: option.splits sum.splits)

lemma find_dev_Some_name: "find_dev n ns = Some d \<Longrightarrow> Name (attrs d) = n"
  by (auto simp: find_dev_def find_Some_iff)

lemma find_dev_upd_dev:
  assumes "\<And>d. Name (attrs (f d)) = Name (attrs d)"
  shows "find_dev m (upd_dev n f ns) = (if m = n then map_option f (find_dev m ns) else find_dev m ns)"
proof -
  have "find (\<lambda>d. Name (attrs d) = m) (map (\<lambda>d. if Name (attrs d) = n then f d else d) xs)
      = (if m = n then map_option f (find (\<lambda>d. Name (attrs d) = m) xs) else find (\<lambda>d. Name (attrs d) = m) xs)" for xs
    by (induction xs) (auto simp: assms)
  then show ?thesis by (simp add: find_dev_def upd_dev_def)
qed

lemma AddrList_eq:
  "AddrList l w =
     (case fault w (CAddrList (Name l)) of
        Some e \<Rightarrow> Inl (Errno e)
      | None \<Rightarrow> (case find_dev (Name l) (curns w) of
          None \<Rightarrow> Inl (Errno ENODEV) | Some d \<Rightarrow> Inr (ips d)),
      record_call (CAddrList (Name l)) w)"
  by (simp add: AddrList_def kernel_query_def split: option.splits)

lemma AddrAdd_ok:
  assumes "fault w (CAddrAdd (Name l) a) = None" "find_dev (Name l) (curns w) = Some d"
    "IP a \<noteq> None" "a \<notin> set (ips d)"
  shows "AddrAdd l a w = (None, put_ns (current w)
           (upd_dev (Name l) (\<lambda>d. d\<lparr>ips := ips d @ [a]\<rparr>) (curns w))
           (record_call (CAddrAdd (Name l) a) w))"
  using assms by (simp add: AddrAdd_def kernel_op_def)

lemma AddrAdd_None:
  assumes "AddrAdd l a w = (None, w')"
  shows "\<exists>d. find_dev (Name l) (curns w) = Some d \<and>
           find_dev (Name l) (curns w') = Some (d\<lparr>ips := ips d @ [a]\<rparr>)
           \<and> current w' = current w \<and> fault w' = fault w"
  using assms unfolding AddrAdd_def
  by (elim kernel_op_cases)
     (auto simp: curns_put_ns record_call_simps put_ns_simps find_dev_upd_dev fault_put_ns fault_record_call
           split: option.splits if_splits)

lemma LinkAdd_eq:
  "LinkAdd l w =
     (case fault w (CLinkAdd (Name l) (Type l)) of
        Some e \<Rightarrow> (Some (Errno e), record_call (CLinkAdd (Name l) (Type l)) w)
      | None \<Rightarrow>
          if has_link (Name l) (curns w)
          then (Some (Errno EEXIST), record_call (CLinkAdd (Name l) (Type l)) w)
          else (None, put_ns (current w)
                  ((curns w)\<lparr>devices := devices (curns w) @ [\<lparr>attrs = l, ips = []\<rparr>]\<rparr>)
                  (record_call (CLinkAdd (Name l) (Type l)) w)))"
  by (simp add: LinkAdd_def kernel_op_def split: option.splits)

lemma LinkByName_eq:
  "LinkByName n w =
     (case fault w (CLinkByName n) of
        Some e \<Rightarrow> Inl (Errno e)
      | None \<Rightarrow> (case find_dev n (curns w) of
          None \<Rightarrow> Inl (Errno ENODEV) | Some d \<Rightarrow> Inr (attrs d)),
      record_call (CLinkByName n) w)"
  by (simp add: LinkByName_def kernel_query_def split: option.splits)

lemma LinkSetUp_eq:
  "LinkSetUp l w =
     (case fault w (CLinkSetUp (Name l)) of
        Some e \<Rightarrow> (Some (Errno e), record_call (CLinkSetUp (Name l)) w)
      | None \<Rightarrow>
          if has_link (Name l) (curns w)
          then (None, put_ns (current w)
                  (upd_dev (Name l) (\<lambda>d. d\<lparr>attrs := (attrs d)\<lparr>Up := True\<rparr>\<rparr>) (curns w))
                  (record_call (CLinkSetUp (Name l)) w))
          else (Some (Errno ENODEV), record_call (CLinkSetUp (Name l)) w))"
  by (simp add: LinkSetUp_def kernel_op_def split: option.splits)

lemma has_link_iff: "has_link n ns \<longleftrightarrow> (\<exists>d. find_dev n ns = Some d)"
  by (simp add: has_link_def)

lemma find_dev_append:
  "find_dev m (ns\<lparr>devices := devices ns @ xs\<rparr>) =
     (case find_dev m ns of Some d \<Rightarrow> Some d | None \<Rightarrow> find (\<lambda>d. Name (attrs d) = m) xs)"
proof -
  have "find P (ys @ xs) = (case find P ys of Some d \<Rightarrow> Some d | None \<Rightarrow> find P xs)"
    for P :: "Device \<Rightarrow> bool" and ys
    by (induction ys) auto
  then show ?thesis by (simp add: find_dev_def)
qed

lemma setupBridge_not_gw:
  "\<not> IsGW n \<Longrightarrow> setupBridge n c w =
     (case ensureBridge (BrName n) None w of
        (Inl err, w1) \<Rightarrow> (Inl (FailedToCreateBridge (BrName n) err), w1)
      | (Inr br, w1) \<Rightarrow> (Inr br, w1))"
  by (simp add: setupBridge_def)

section \<open>Bridge address reconciliation\<close>

text \<open>
  Claim C2. For a bridge that exists and whose addresses can be listed, and every
  requested address, \<open>ensureBridgeAddr\<close> behaves by cases on the bridge's addresses.
  With no address, the requested one is added (when the kernel accepts it) and is then
  the bridge's only address. With an address whose string form equals that of the
  requested one, it succeeds and nothing changes but the log of calls, which gains the
  listing. With addresses none of which equals the requested one, it fails with the
  conflict error and again nothing changes but the log. Whenever it succeeds, it
  succeeds again on the resulting state, changing nothing.
\<close>

theorem ensureBridgeAddr_cases:
  assumes "fault w (CAddrList (Name br)) = None"
    and "find_dev (Name br) (curns w) = Some d"
  shows "(ips d = [] \<and> fault w (CAddrAdd (Name br) ipn) = None \<and> IP ipn \<noteq> None \<longrightarrow>
            fst (ensureBridgeAddr br ipn w) = None \<and>
            map_option ips (find_dev (Name br) (curns (snd (ensureBridgeAddr br ipn w)))) = Some [ipn])
       \<and> ((\<exists>a \<in> set (ips d). IPNet_String a = IPNet_String ipn) \<longrightarrow>
            ensureBridgeAddr br ipn w = (None, record_call (CAddrList (Name br)) w))
       \<and> (ips d \<noteq> [] \<and> (\<forall>a \<in> set (ips d). IPNet_String a \<noteq> IPNet_String ipn) \<longrightarrow>
            ensureBridgeAddr br ipn w =
              (Some (AddrConflict (Name br) ipn), record_call (CAddrList (Name br)) w))
       \<and> (fst (ensureBridgeAddr br ipn w) = None \<longrightarrow>
            ensureBridgeAddr br ipn (snd (ensureBridgeAddr br ipn w)) =
              (None, record_call (CAddrList (Name br)) (snd (ensureBridgeAddr br ipn w))))"
proof (intro conjI impI)
  assume a: "ips d = [] \<and> fault w (CAddrAdd (Name br) ipn) = None \<and> IP ipn \<noteq> None"
  let ?w1 = "record_call (CAddrList (Name br)) w"
  have add: "AddrAdd br ipn ?w1 = (None, put_ns (current ?w1)
           (upd_dev (Name br) (\<lambda>d. d\<lparr>ips := ips d @ [ipn]\<rparr>) (curns ?w1))
           (record_call (CAddrAdd (Name br) ipn) ?w1))"
    using a assms by (intro AddrAdd_ok[where d=d]) (simp_all add: fault_record_call curns_record_call)
  have e: "ensureBridgeAddr br ipn w = (None, put_ns (current ?w1)
           (upd_dev (Name br) (\<lambda>d. d\<lparr>ips := ips d @ [ipn]\<rparr>) (curns ?w1))
           (record_call (CAddrAdd (Name br) ipn) ?w1))"
    using a assms by (simp add: ensureBridgeAddr_def AddrList_eq add)
  show "fst (ensureBridgeAddr br ipn w) = None" by (simp add: e)
  show "map_option ips (find_dev (Name br) (curns (snd (ensureBridgeAddr br ipn w)))) = Some [ipn]"
    using a assms
    by (simp add: e curns_put_ns record_call_simps find_dev_upd_dev curns_record_call)
next
  assume "\<exists>a \<in> set (ips d). IPNet_String a = IPNet_String ipn"
  then show "ensureBridgeAddr br ipn w = (None, record_call (CAddrList (Name br)) w)"
    using assms by (auto simp: ensureBridgeAddr_def AddrList_eq list_ex_iff)
next
  assume "ips d \<noteq> [] \<and> (\<forall>a \<in> set (ips d). IPNet_String a \<noteq> IPNet_String ipn)"
  then show "ensureBridgeAddr br ipn w =
      (Some (AddrConflict (Name br) ipn), record_call (CAddrList (Name br)) w)"
    using assms by (auto simp: ensureBridgeAddr_def AddrList_eq list_ex_iff)
next
  assume s: "fst (ensureBridgeAddr br ipn w) = None"
  let ?w1 = "record_call (CAddrList (Name br)) w"
  let ?w' = "snd (ensureBridgeAddr br ipn w)"
  show "ensureBridgeAddr br ipn ?w' = (None, record_call (CAddrList (Name br)) ?w')"
  proof (cases "ips d = []")
    case False
    with s assms have m: "list_ex (\<lambda>a. IPNet_String a = IPNet_String ipn) (ips d)"
      and w': "?w' = ?w1"
      by (auto simp: ensureBridgeAddr_def AddrList_eq split: if_splits)
    have "ensureBridgeAddr br ipn ?w1 = (None, record_call (CAddrList (Name br)) ?w1)"
      using assms m False
      by (simp add: ensureBridgeAddr_def AddrList_eq fault_record_call curns_record_call)
    then show ?thesis by (simp add: w')
  next
    case True
    with s assms obtain w2 where add: "AddrAdd br ipn ?w1 = (None, w2)" and w': "?w' = w2"
      by (auto simp: ensureBridgeAddr_def AddrList_eq split: prod.splits option.splits)
    from AddrAdd_None[OF add] obtain d' where
      d': "find_dev (Name br) (curns w2) = Some (d'\<lparr>ips := ips d' @ [ipn]\<rparr>)"
      and f: "fault w2 = fault ?w1" by blast
    have "ensureBridgeAddr br ipn w2 = (None, record_call (CAddrList (Name br)) w2)"
      using d' f assms(1)
      by (simp add: ensureBridgeAddr_def AddrList_eq fault_record_call)
    then show ?thesis by (simp add: w')
  qed
qed

theorem ensureBridgeAddr_cases_witness:
  "ensureBridgeAddr ex_rkt0 ex_gw (ex_with Bridge [ex_gw]) =
     (None, record_call (CAddrList ''rkt0'') (ex_with Bridge [ex_gw])) \<and>
   ensureBridgeAddr ex_rkt0 ex_ip (ex_with Bridge [ex_gw]) =
     (Some (AddrConflict ''rkt0'' ex_ip), record_call (CAddrList ''rkt0'') (ex_with Bridge [ex_gw])) \<and>
   fst (ensureBridgeAddr ex_rkt0 ex_gw (ex_with Bridge [])) = None \<and>
   map_option ips (find_dev ''rkt0'' (curns (snd (ensureBridgeAddr ex_rkt0 ex_gw (ex_with Bridge [])))))
     = Some [ex_gw] \<and>
   fst (ensureBridge ''rkt0'' (Some ex_gw) ex_world) = Inr ex_rkt0 \<and>
   fst (ensureBridge ''rkt0'' (Some ex_gw) (snd (ensureBridge ''rkt0'' (Some ex_gw) ex_world))) =
     Inr (ex_rkt0\<lparr>Up := True\<rparr>) \<and>
   devices (curns (snd (ensureBridge ''rkt0'' (Some ex_gw)
     (snd (ensureBridge ''rkt0'' (Some ex_gw) ex_world))))) =
     [\<lparr>attrs = ex_rkt0\<lparr>Up := True\<rparr>, ips = [ex_gw]\<rparr>]"
proof -
  have twice: "fst (ensureBridge ''rkt0'' (Some ex_gw) ex_world) = Inr ex_rkt0"
    "fst (ensureBridge ''rkt0'' (Some ex_gw) (snd (ensureBridge ''rkt0'' (Some ex_gw) ex_world))) =
       Inr (ex_rkt0\<lparr>Up := True\<rparr>)"
    "devices (curns (snd (ensureBridge ''rkt0'' (Some ex_gw)
       (snd (ensureBridge ''rkt0'' (Some ex_gw) ex_world))))) =
       [\<lparr>attrs = ex_rkt0\<lparr>Up := True\<rparr>, ips = [ex_gw]\<rparr>]"
    by code_simp+
  have f: "fault (ex_with Bridge as) c = None" for as c
    by (simp add: fault_def ex_with_def ex_world_def)
  have d: "find_dev (Name ex_rkt0) (curns (ex_with Bridge as)) =
      Some \<lparr>attrs = ex_rkt0\<lparr>Up := True\<rparr>, ips = as\<rparr>" for as
    by (simp add: find_dev_def curns_def get_ns_def ex_with_def ex_world_def ex_rkt0_def)
  have ne: "IPNet_String ex_gw \<noteq> IPNet_String ex_ip"
    by code_simp
  have ip: "IP ex_gw \<noteq> None"
    by (simp add: ex_gw_def)
  show ?thesis
    using ensureBridgeAddr_cases [OF f d, of "[ex_gw]" ex_gw]
      ensureBridgeAddr_cases [OF f d, of "[ex_gw]" ex_ip]
      ensureBridgeAddr_cases [OF f d, of "[]" ex_gw] f ne ip twice
    by (simp add: ex_rkt0_def)
qed

section \<open>Bridge creation\<close>

text \<open>
  Claim C3. When creating the bridge fails with \<open>EEXIST\<close>, \<open>ensureBridge\<close> looks the
  device up instead of failing: if the device found is a bridge and can be brought up,
  the call made without an address succeeds with that device after exactly the calls
  add, lookup and set-up, and the call made with an address goes on to validate the
  address on it. Any other failure of the creation is returned as an error, nothing
  else being attempted. A device of the requested name that is not a bridge makes
  \<open>ensureBridge\<close> fail with the conflict error.
\<close>

theorem ensureBridge_already_exists:
  "(fst (LinkAdd \<lparr>Name = brName, Type = Bridge, Up = False, Master = None\<rparr> w) = Some (Errno EEXIST) \<and>
      fault w (CLinkByName brName) = None \<and> find_dev brName (curns w) = Some d \<and>
      Type (attrs d) = Bridge \<and> fault w (CLinkSetUp brName) = None \<longrightarrow>
        fst (ensureBridge brName None w) = Inr (attrs d) \<and>
        calls (snd (ensureBridge brName None w)) =
          calls w @ [CLinkAdd brName Bridge, CLinkByName brName, CLinkSetUp brName] \<and>
        ensureBridge brName (Some a) w =
          (case ensureBridgeAddr (attrs d) a (snd (ensureBridge brName None w)) of
             (Some e, w4) \<Rightarrow> (Inl e, w4)
           | (None, w4) \<Rightarrow> (Inr (attrs d), w4)))
   \<and> (fst (LinkAdd \<lparr>Name = brName, Type = Bridge, Up = False, Master = None\<rparr> w) = Some e \<and>
      e \<noteq> Errno EEXIST \<longrightarrow>
        ensureBridge brName ipn w =
          (Inl (CouldNotAdd brName e), record_call (CLinkAdd brName Bridge) w))
   \<and> (fault w (CLinkAdd brName Bridge) = None \<and> fault w (CLinkByName brName) = None \<and>
      find_dev brName (curns w) = Some d \<and> Type (attrs d) \<noteq> Bridge \<longrightarrow>
        ensureBridge brName ipn w =
          (Inl (NotABridge brName),
           record_call (CLinkByName brName) (record_call (CLinkAdd brName Bridge) w)))"
proof (intro conjI impI)
  let ?br = "\<lparr>Name = brName, Type = Bridge, Up = False, Master = None\<rparr>"
  let ?w1 = "record_call (CLinkAdd brName Bridge) w"
  let ?w2 = "record_call (CLinkByName brName) ?w1"
  assume a: "fst (LinkAdd ?br w) = Some (Errno EEXIST) \<and>
      fault w (CLinkByName brName) = None \<and> find_dev brName (curns w) = Some d \<and>
      Type (attrs d) = Bridge \<and> fault w (CLinkSetUp brName) = None"
  then have la: "LinkAdd ?br w = (Some (Errno EEXIST), ?w1)"
    by (auto simp: LinkAdd_eq has_link_iff split: option.splits)
  have nm: "Name (attrs d) = brName"
    using a by (auto simp: find_dev_def find_Some_iff)
  have bb: "bridgeByName brName ?w1 = (Inr (attrs d), ?w2)"
    using a by (simp add: bridgeByName_def LinkByName_eq fault_record_call curns_record_call)
  have su: "fst (LinkSetUp (attrs d) ?w2) = None \<and>
      calls (snd (LinkSetUp (attrs d) ?w2)) = calls ?w2 @ [CLinkSetUp brName]"
    using a nm
    by (simp add: LinkSetUp_eq fault_record_call curns_record_call has_link_iff
        record_call_simps put_ns_simps)
  then obtain w3 where w3: "LinkSetUp (attrs d) ?w2 = (None, w3)"
    and c3: "calls w3 = calls ?w2 @ [CLinkSetUp brName]"
    by (cases "LinkSetUp (attrs d) ?w2") auto
  have eN: "ensureBridge brName None w = (Inr (attrs d), w3)"
    by (simp add: ensureBridge_def la bb w3)
  show "fst (ensureBridge brName None w) = Inr (attrs d)"
    by (simp add: eN)
  show "calls (snd (ensureBridge brName None w)) =
          calls w @ [CLinkAdd brName Bridge, CLinkByName brName, CLinkSetUp brName]"
    by (simp add: eN c3 record_call_simps)
  show "ensureBridge brName (Some a) w =
          (case ensureBridgeAddr (attrs d) a (snd (ensureBridge brName None w)) of
             (Some e, w4) \<Rightarrow> (Inl e, w4)
           | (None, w4) \<Rightarrow> (Inr (attrs d), w4))"
    by (simp add: eN) (simp add: ensureBridge_def la bb w3)
next
  assume "fst (LinkAdd \<lparr>Name = brName, Type = Bridge, Up = False, Master = None\<rparr> w) = Some e \<and>
      e \<noteq> Errno EEXIST"
  then show "ensureBridge brName ipn w =
          (Inl (CouldNotAdd brName e), record_call (CLinkAdd brName Bridge) w)"
    by (auto simp: ensureBridge_def LinkAdd_eq split: option.splits if_splits)
next
  assume "fault w (CLinkAdd brName Bridge) = None \<and> fault w (CLinkByName brName) = None \<and>
      find_dev brName (curns w) = Some d \<and> Type (attrs d) \<noteq> Bridge"
  then show "ensureBridge brName ipn w =
          (Inl (NotABridge brName),
           record_call (CLinkByName brName) (record_call (CLinkAdd brName Bridge) w))"
    by (simp add: ensureBridge_def LinkAdd_eq has_link_iff bridgeByName_def LinkByName_eq
        fault_record_call curns_record_call)
qed

theorem ensureBridge_already_exists_witness:
  "fst (ensureBridge ''rkt0'' None (ex_with Bridge [ex_gw])) = Inr (ex_rkt0\<lparr>Up := True\<rparr>) \<and>
   calls (snd (ensureBridge ''rkt0'' None (ex_with Bridge [ex_gw]))) =
     [CLinkAdd ''rkt0'' Bridge, CLinkByName ''rkt0'', CLinkSetUp ''rkt0''] \<and>
   fst (ensureBridge ''rkt0'' None (ex_faulty [(CLinkAdd ''rkt0'' Bridge, EPERM)])) =
     Inl (CouldNotAdd ''rkt0'' (Errno EPERM)) \<and>
   fst (ensureBridge ''rkt0'' None (ex_with Device [])) = Inl (NotABridge ''rkt0'')"
proof -
  let ?br = "\<lparr>Name = ''rkt0'', Type = Bridge, Up = False, Master = None\<rparr>"
  let ?d = "\<lambda>t as. \<lparr>attrs = ex_rkt0\<lparr>Type := t, Up := True\<rparr>, ips = as\<rparr>"
  have f: "fault (ex_with t as) c = None" for t as c
    by (simp add: fault_def ex_with_def ex_world_def)
  have d: "find_dev ''rkt0'' (curns (ex_with t as)) = Some (?d t as)" for t as
    by (simp add: find_dev_def curns_def get_ns_def ex_with_def ex_world_def ex_rkt0_def)
  have a1: "fst (LinkAdd ?br (ex_with Bridge [ex_gw])) = Some (Errno EEXIST)"
    by code_simp
  have a2: "fst (LinkAdd ?br (ex_faulty [(CLinkAdd ''rkt0'' Bridge, EPERM)])) = Some (Errno EPERM)"
    by code_simp
  have c: "calls (ex_with Bridge [ex_gw]) = []"
    by (simp add: ex_with_def ex_world_def)
  show ?thesis
    using
      ensureBridge_already_exists [where brName = "''rkt0''" and w = "ex_with Bridge [ex_gw]"
        and d = "?d Bridge [ex_gw]"]
      ensureBridge_already_exists [where brName = "''rkt0''" and e = "Errno EPERM" and ipn = None
        and w = "ex_faulty [(CLinkAdd ''rkt0'' Bridge, EPERM)]"]
      ensureBridge_already_exists [where brName = "''rkt0''" and w = "ex_with Device []"
        and d = "?d Device []" and ipn = None]
      f d a1 a2 c
    by (simp add: ex_rkt0_def)
qed

section \<open>The bridge without gateway mode\<close>

text \<open>
  Claim C10. With the gateway-mode flag false, \<open>setupBridge\<close> makes no call other than
  adding, looking up and bringing up the bridge, so it never lists or adds an address;
  every device that existed keeps its addresses; and a bridge that already exists under
  the configured name is accepted on a healthy kernel, whatever addresses it has.
\<close>

theorem setupBridge_without_gateway:
  assumes "\<not> IsGW n"
  shows "(\<exists>cs. calls (snd (setupBridge n c w)) = calls w @ cs \<and>
            set cs \<subseteq> {CLinkAdd (BrName n) Bridge, CLinkByName (BrName n), CLinkSetUp (BrName n)})
     \<and> (find_dev m (curns w) = Some d \<longrightarrow>
          map_option ips (find_dev m (curns (snd (setupBridge n c w)))) = Some (ips d))
     \<and> (find_dev (BrName n) (curns w) = Some d \<and> Type (attrs d) = Bridge \<and> faults w = [] \<longrightarrow>
          fst (setupBridge n c w) = Inr (attrs d))"
proof (intro conjI impI)
  show "\<exists>cs. calls (snd (setupBridge n c w)) = calls w @ cs \<and>
            set cs \<subseteq> {CLinkAdd (BrName n) Bridge, CLinkByName (BrName n), CLinkSetUp (BrName n)}"
    using assms
    by (auto simp: setupBridge_not_gw ensureBridge_def Let_def LinkAdd_eq bridgeByName_def LinkByName_eq
        LinkSetUp_eq record_call_simps put_ns_simps find_dev_Some_name
        split: option.splits sum.splits prod.splits if_splits)
next
  assume "find_dev m (curns w) = Some d"
  then show "map_option ips (find_dev m (curns (snd (setupBridge n c w)))) = Some (ips d)"
    using assms
    by (auto simp: setupBridge_not_gw ensureBridge_def Let_def LinkAdd_eq bridgeByName_def LinkByName_eq
        LinkSetUp_eq record_call_simps put_ns_simps find_dev_Some_name curns_record_call
        curns_put_ns find_dev_upd_dev find_dev_append fault_record_call fault_put_ns
        split: option.splits sum.splits prod.splits if_splits)
next
  assume "find_dev (BrName n) (curns w) = Some d \<and> Type (attrs d) = Bridge \<and> faults w = []"
  then show "fst (setupBridge n c w) = Inr (attrs d)"
    using assms
    by (auto simp: setupBridge_not_gw ensureBridge_def Let_def LinkAdd_eq bridgeByName_def LinkByName_eq
        LinkSetUp_eq has_link_iff fault_def find_dev_Some_name curns_record_call
        fault_record_call record_call_simps
        split: option.splits sum.splits prod.splits if_splits)
qed

theorem setupBridge_without_gateway_witness:
  "\<not> IsGW (ex_net False) \<and>
   fst (setupBridge (ex_net False) \<lparr>ipIP = ex_ip, Gateway = None\<rparr> (ex_with Bridge [ex_ip]))
     = Inr (ex_rkt0\<lparr>Up := True\<rparr>) \<and>
   map_option ips (find_dev ''rkt0'' (curns (snd
     (setupBridge (ex_net False) \<lparr>ipIP = ex_ip, Gateway = None\<rparr> (ex_with Bridge [ex_ip])))))
     = Some [ex_ip]"
proof -
  have g: "\<not> IsGW (ex_net False)" by (simp add: ex_net_def)
  have d: "find_dev ''rkt0'' (curns (ex_with Bridge [ex_ip])) =
      Some \<lparr>attrs = ex_rkt0\<lparr>Up := True\<rparr>, ips = [ex_ip]\<rparr>"
    by (simp add: find_dev_def curns_def get_ns_def ex_with_def ex_world_def ex_rkt0_def)
  have f: "faults (ex_with Bridge [ex_ip]) = []"
    by (simp add: ex_with_def ex_world_def)
  have b: "BrName (ex_net False) = ''rkt0''" by (simp add: ex_net_def)
  show ?thesis
    using setupBridge_without_gateway [OF g, of "\<lparr>ipIP = ex_ip, Gateway = None\<rparr>"
        "ex_with Bridge [ex_ip]" "''rkt0''" "\<lparr>attrs = ex_rkt0\<lparr>Up := True\<rparr>, ips = [ex_ip]\<rparr>"]
      g d f
    by (simp add: b ex_rkt0_def)
qed

section \<open>The gateway address of the bridge\<close>

lemma ensureBridgeAddr_success:
  assumes "ensureBridgeAddr br ipn w = (None, w')"
  shows "\<exists>d a. find_dev (Name br) (curns w') = Some d \<and> a \<in> set (ips d) \<and>
           IPNet_String a = IPNet_String ipn"
proof (cases "AddrAdd br ipn (record_call (CAddrList (Name br)) w) = (None, w')")
  case True
  from AddrAdd_None[OF True] show ?thesis by auto
next
  case False
  with assms show ?thesis
    by (auto simp: ensureBridgeAddr_def AddrList_eq curns_record_call list_ex_iff
        split: option.splits sum.splits prod.splits if_splits)
qed

lemma bridgeByName_name: "bridgeByName n w = (Inr br, w') \<Longrightarrow> Name br = n"
  by (auto simp: bridgeByName_def LinkByName_eq find_dev_Some_name
      split: option.splits if_splits)

lemma ensureBridge_success:
  assumes "ensureBridge brName (Some ipn) w = (Inr br, w')"
  shows "\<exists>d a. find_dev brName (curns w') = Some d \<and> a \<in> set (ips d) \<and>
           IPNet_String a = IPNet_String ipn"
proof -
  from assms obtain w3 where e: "ensureBridgeAddr br ipn w3 = (None, w')" and n: "Name br = brName"
    by (auto simp: ensureBridge_def Let_def dest: bridgeByName_name
        split: option.splits sum.splits prod.splits if_splits)
  from ensureBridgeAddr_success[OF e] n show ?thesis by simp
qed

text \<open>
  Claim C1. In gateway mode \<open>setupBridge\<close> hands \<open>ensureBridge\<close> the gateway of the
  specification with the mask of the assigned address: the gateway supplied by the
  address-management plugin when there is one, otherwise the assigned address masked to
  its network identifier plus one. Whenever it succeeds, the bridge carries an address
  whose string form is that gateway's. The computed gateway is the network identifier
  plus one, so it is the same for every address of a network, and is \<open>10.1.2.1\<close> for \<open>10.1.2.0/24\<close> and \<open>192.168.5.129\<close> for
  \<open>192.168.5.128/26\<close>.
\<close>

theorem setupBridge_gateway:
  assumes "IsGW n"
  shows "setupBridge n c w =
      (case ensureBridge (BrName n) (Some \<lparr>IP = spec_gateway c, Mask = Mask (ipIP c)\<rparr>) w of
         (Inl err, w1) \<Rightarrow> (Inl (FailedToCreateBridge (BrName n) err), w1)
       | (Inr br, w1) \<Rightarrow> (Inr br, w1))
    \<and> (fst (setupBridge n c w) = Inr br \<longrightarrow>
         (\<exists>d a. find_dev (BrName n) (curns (snd (setupBridge n c w))) = Some d \<and> a \<in> set (ips d) \<and>
            IPNet_String a = IPNet_String \<lparr>IP = spec_gateway c, Mask = Mask (ipIP c)\<rparr>))
    \<and> calcGatewayIP \<lparr>IP = Some x, Mask = m\<rparr> = Some ((x AND m) + 1)
    \<and> (x AND m = y AND m \<longrightarrow>
         calcGatewayIP \<lparr>IP = Some x, Mask = m\<rparr> = calcGatewayIP \<lparr>IP = Some y, Mask = m\<rparr>)
    \<and> calcGatewayIP \<lparr>IP = Some (ipv4 10 1 2 0), Mask = CIDRMask 24 32\<rparr> = Some (ipv4 10 1 2 1)
    \<and> calcGatewayIP \<lparr>IP = Some (ipv4 192 168 5 128), Mask = CIDRMask 26 32\<rparr>
         = Some (ipv4 192 168 5 129)"
proof (intro conjI impI)
  have gw: "(if Gateway c \<noteq> None then Gateway c else calcGatewayIP (ipIP c)) = spec_gateway c"
    by (simp add: spec_gateway_def calcGatewayIP_def IP_Mask_def NextIP_def split: option.splits)
  show eq: "setupBridge n c w =
      (case ensureBridge (BrName n) (Some \<lparr>IP = spec_gateway c, Mask = Mask (ipIP c)\<rparr>) w of
         (Inl err, w1) \<Rightarrow> (Inl (FailedToCreateBridge (BrName n) err), w1)
       | (Inr br, w1) \<Rightarrow> (Inr br, w1))"
    using assms unfolding setupBridge_def Let_def gw by simp
  assume "fst (setupBridge n c w) = Inr br"
  then obtain w' where "ensureBridge (BrName n) (Some \<lparr>IP = spec_gateway c, Mask = Mask (ipIP c)\<rparr>) w = (Inr br, w')"
    and "snd (setupBridge n c w) = w'"
    by (auto simp: eq split: prod.splits sum.splits)
  with ensureBridge_success show "\<exists>d a. find_dev (BrName n) (curns (snd (setupBridge n c w))) = Some d \<and> a \<in> set (ips d) \<and>
            IPNet_String a = IPNet_String \<lparr>IP = spec_gateway c, Mask = Mask (ipIP c)\<rparr>"
    by simp
next
  show "calcGatewayIP \<lparr>IP = Some x, Mask = m\<rparr> = Some ((x AND m) + 1)"
    by (simp add: calcGatewayIP_def IP_Mask_def NextIP_def)
  show "calcGatewayIP \<lparr>IP = Some x, Mask = m\<rparr> = calcGatewayIP \<lparr>IP = Some y, Mask = m\<rparr>"
    if "x AND m = y AND m"
    using that by (simp add: calcGatewayIP_def IP_Mask_def NextIP_def)
  show "calcGatewayIP \<lparr>IP = Some (ipv4 10 1 2 0), Mask = CIDRMask 24 32\<rparr> = Some (ipv4 10 1 2 1)"
    by code_simp
  show "calcGatewayIP \<lparr>IP = Some (ipv4 192 168 5 128), Mask = CIDRMask 26 32\<rparr>
         = Some (ipv4 192 168 5 129)"
    by code_simp
qed

theorem setupBridge_gateway_witness:
  "IsGW (ex_net True) \<and>
   spec_gateway \<lparr>ipIP = ex_ip, Gateway = None\<rparr> = Some (ipv4 10 2 0 1) \<and>
   calcGatewayIP \<lparr>IP = Some (ipv4 10 2 0 5), Mask = CIDRMask 24 32\<rparr> =
     calcGatewayIP \<lparr>IP = Some (ipv4 10 2 0 77), Mask = CIDRMask 24 32\<rparr> \<and>
   fst (setupBridge (ex_net True) \<lparr>ipIP = ex_ip, Gateway = None\<rparr> ex_world) = Inr ex_rkt0 \<and>
   (\<exists>d a. find_dev ''rkt0'' (curns (snd (setupBridge (ex_net True) \<lparr>ipIP = ex_ip, Gateway = None\<rparr> ex_world))) = Some d \<and>
      a \<in> set (ips d) \<and> IPNet_String a = IPNet_String ex_gw)"
proof -
  have g: "IsGW (ex_net True)" by (simp add: ex_net_def)
  have s: "spec_gateway \<lparr>ipIP = ex_ip, Gateway = None\<rparr> = Some (ipv4 10 2 0 1)"
    by code_simp
  have r: "fst (setupBridge (ex_net True) \<lparr>ipIP = ex_ip, Gateway = None\<rparr> ex_world) = Inr ex_rkt0"
    by code_simp
  let ?c = "\<lparr>ipIP = ex_ip, Gateway = None\<rparr>"
  have m: "\<lparr>IP = spec_gateway ?c, Mask = Mask (ipIP ?c)\<rparr> = ex_gw" "BrName (ex_net True) = ''rkt0''"
    unfolding s by (simp_all add: ex_ip_def ex_gw_def ex_net_def)
  have n: "ipv4 10 2 0 5 AND CIDRMask 24 32 = ipv4 10 2 0 77 AND CIDRMask 24 32"
    by code_simp
  from setupBridge_gateway [OF g, of ?c ex_world ex_rkt0 "ipv4 10 2 0 5" "CIDRMask 24 32"
      "ipv4 10 2 0 77"] n
  have k: "calcGatewayIP \<lparr>IP = Some (ipv4 10 2 0 5), Mask = CIDRMask 24 32\<rparr> =
     calcGatewayIP \<lparr>IP = Some (ipv4 10 2 0 77), Mask = CIDRMask 24 32\<rparr>"
    by blast
  from setupBridge_gateway [OF g, of ?c ex_world ex_rkt0] r
  have "\<exists>d a. find_dev (BrName (ex_net True)) (curns (snd (setupBridge (ex_net True) ?c ex_world))) = Some d \<and>
      a \<in> set (ips d) \<and> IPNet_String a = IPNet_String \<lparr>IP = spec_gateway ?c, Mask = Mask (ipIP ?c)\<rparr>"
    by blast
  then have "\<exists>d a. find_dev ''rkt0'' (curns (snd (setupBridge (ex_net True) ?c ex_world))) = Some d \<and>
      a \<in> set (ips d) \<and> IPNet_String a = IPNet_String ex_gw"
    by (simp only: m)
  with g s r k show ?thesis by blast
qed

section \<open>The address-management delegate comes first\<close>

text \<open>
  Claim C4. In both plugins, when the address-management delegate is invoked and fails,
  \<open>cmdAdd\<close> returns the delegate's error and the world is as it was: no kernel call has
  been made, so no device, address or route exists that did not before. Conversely,
  whenever \<open>cmdAdd\<close> has made a kernel call, the delegate had returned an assignment.
\<close>

theorem delegate_failure_creates_nothing:
  "(NewUUID contID = Inr cid \<and>
    LoadNet_bridge netConf \<lparr>NetName = [], NetType = [], IPAM_Type = [],
       BrName = defaultBrName, IsGW = False\<rparr> w = Inr n \<and>
    ExecPlugin (IPAM_Type n) w = Inl e \<longrightarrow>
      bridge_cmdAdd contID netns netConf ifName w = (Some e, w))
   \<and> (LoadNet netConf \<lparr>NetName = [], NetType = [], IPAM_Type = []\<rparr> w = Inr conf \<and>
    ExecPlugin (IPAM_Type conf) w = Inl e \<longrightarrow>
      veth_cmdAdd contID netns netConf ifName args w = (Some e, w))
   \<and> (calls (snd (bridge_cmdAdd contID netns netConf ifName w)) \<noteq> calls w \<longrightarrow>
      (\<exists>n c. LoadNet_bridge netConf \<lparr>NetName = [], NetType = [], IPAM_Type = [],
           BrName = defaultBrName, IsGW = False\<rparr> w = Inr n \<and>
         ExecPlugin (IPAM_Type n) w = Inr c))
   \<and> (calls (snd (veth_cmdAdd contID netns netConf ifName args w)) \<noteq> calls w \<longrightarrow>
      (\<exists>conf c. LoadNet netConf \<lparr>NetName = [], NetType = [], IPAM_Type = []\<rparr> w = Inr conf \<and>
         ExecPlugin (IPAM_Type conf) w = Inr c))"
  by (auto simp: bridge_cmdAdd_def veth_cmdAdd_def split: sum.splits)

theorem delegate_failure_creates_nothing_witness:
  "bridge_cmdAdd ex_cid ''/ns/c1'' ''/net/bad.conf'' ''eth0'' ex_world = (Some DelegateError, ex_world) \<and>
   veth_cmdAdd ex_cid ''/ns/c1'' ''/net/bad.conf'' ''eth0'' [] ex_world = (Some DelegateError, ex_world)"
proof -
  have u: "NewUUID ex_cid = Inr (UUID ''6733c088a5074694aabff8cc3e5b8a81'')"
    by code_simp
  have l: "LoadNet_bridge ''/net/bad.conf'' \<lparr>NetName = [], NetType = [], IPAM_Type = [],
       BrName = defaultBrName, IsGW = False\<rparr> ex_world =
       Inr \<lparr>NetName = ''bad'', NetType = ''veth'', IPAM_Type = ''bad-ipam'',
       BrName = ''rkt0'', IsGW = False\<rparr>"
    by code_simp
  have l': "LoadNet ''/net/bad.conf'' \<lparr>NetName = [], NetType = [], IPAM_Type = []\<rparr> ex_world =
       Inr \<lparr>NetName = ''bad'', NetType = ''veth'', IPAM_Type = ''bad-ipam''\<rparr>"
    by code_simp
  have x: "ExecPlugin ''bad-ipam'' ex_world = Inl DelegateError"
    by code_simp
  show ?thesis
    using delegate_failure_creates_nothing [where contID = ex_cid and netConf = "''/net/bad.conf''"
        and w = ex_world and e = DelegateError and netns = "''/ns/c1''" and ifName = "''eth0''"
        and args = "[]"
        and cid = "UUID ''6733c088a5074694aabff8cc3e5b8a81''"
        and n = "\<lparr>NetName = ''bad'', NetType = ''veth'', IPAM_Type = ''bad-ipam'',
                  BrName = ''rkt0'', IsGW = False\<rparr>"
        and conf = "\<lparr>NetName = ''bad'', NetType = ''veth'', IPAM_Type = ''bad-ipam''\<rparr>"]
      u l l' x
    by simp
qed

section \<open>Detach\<close>

lemma Detach_absent:
  assumes "spaces w (NSPath netns) = Some ns" "find_dev ifName ns = None" "faults w = []"
    "spaces w (current w) \<noteq> None"
  shows "WithNetNSPath netns
             (\<lambda>hostNS v. case DelLinkByName ifName v of
                            (Some err, v1) \<Rightarrow> (Inl err, v1)
                          | (None, v1) \<Rightarrow> (Inr (), v1)) w =
         (Inr (), w\<lparr>calls := calls w @ [CSetNS (NSPath netns), CLinkByName ifName, CSetNS (current w)]\<rparr>)"
  using assms
  by (auto simp: WithNetNSPath_def SetNS_def DelLinkByName_def LinkByName_eq
      fault_def record_call_def curns_def get_ns_def Let_def)

text \<open>
  Claim C8. In both plugins, when the namespace handle refers to a namespace, the named
  interface does not exist there, the kernel is healthy and the thread's own namespace
  exists, \<open>cmdDel\<close> returns success; it has entered the namespace, looked the interface
  up and come back, and changed nothing else.
\<close>

theorem cmdDel_absent_interface:
  assumes "spaces w (NSPath netns) = Some ns" and "find_dev ifName ns = None"
    and "faults w = []" and "spaces w (current w) \<noteq> None"
  shows "bridge_cmdDel contID netns netConf ifName w =
           (None, w\<lparr>calls := calls w @ [CSetNS (NSPath netns), CLinkByName ifName, CSetNS (current w)]\<rparr>)
       \<and> veth_cmdDel contID netns netConf ifName args w =
           (None, w\<lparr>calls := calls w @ [CSetNS (NSPath netns), CLinkByName ifName, CSetNS (current w)]\<rparr>)"
  by (simp add: bridge_cmdDel_def veth_cmdDel_def Detach_absent[OF assms])

theorem cmdDel_absent_interface_witness:
  "fst (bridge_cmdDel ex_cid ''/ns/c1'' ''/net/bridge.conf'' ''eth0'' ex_world) = None \<and>
   fst (veth_cmdDel ex_cid ''/ns/c1'' ''/net/ptp.conf'' ''eth0'' [] ex_world) = None"
proof -
  have a: "spaces ex_world (NSPath ''/ns/c1'') = Some empty_ns"
    by (simp add: ex_world_def)
  have b: "find_dev ''eth0'' empty_ns = None"
    by (simp add: find_dev_def empty_ns_def)
  have c: "faults ex_world = []"
    by (simp add: ex_world_def)
  have d: "spaces ex_world (current ex_world) \<noteq> None"
    by (simp add: ex_world_def)
  show ?thesis
    using cmdDel_absent_interface [OF a b c d, of ex_cid "''/net/bridge.conf''" "[]"]
      cmdDel_absent_interface [OF a b c d, of ex_cid "''/net/ptp.conf''" "[]"]
    by simp
qed

section \<open>The command dispatcher\<close>

text \<open>
  Claim C9, as the code has it. When a required variable is missing, both \<open>main\<close>
  functions exit with status 1, leave the world as it was and log the fixed line
  \<^verbatim>\<open>Required env variable missing\<close> and a dump of the environment; when all are present
  and the verb is neither \<^verbatim>\<open>ADD\<close> nor \<^verbatim>\<open>DEL\<close>, they exit with status 1, leave the
  world as it was and log a line naming the verb.
\<close>

theorem main_rejects_bad_invocation:
  "(Getenv env ''RKT_NETPLUGIN_COMMAND'' = [] \<or> Getenv env ''RKT_NETPLUGIN_CONTID'' = [] \<or>
    Getenv env ''RKT_NETPLUGIN_NETNS'' = [] \<or> Getenv env ''RKT_NETPLUGIN_IFNAME'' = [] \<or>
    Getenv env ''RKT_NETPLUGIN_NETCONF'' = [] \<longrightarrow>
      bridge_main env w =
        \<lparr>status = 1,
         logged = [Line ''Required env variable missing'', Line (''Env: '' @ Environ env)],
         after = w\<rparr> \<and>
      veth_main env w = bridge_main env w)
   \<and> (Getenv env ''RKT_NETPLUGIN_COMMAND'' \<noteq> [] \<and> Getenv env ''RKT_NETPLUGIN_CONTID'' \<noteq> [] \<and>
    Getenv env ''RKT_NETPLUGIN_NETNS'' \<noteq> [] \<and> Getenv env ''RKT_NETPLUGIN_IFNAME'' \<noteq> [] \<and>
    Getenv env ''RKT_NETPLUGIN_NETCONF'' \<noteq> [] \<and>
    Getenv env ''RKT_NETPLUGIN_COMMAND'' \<noteq> ''ADD'' \<and>
    Getenv env ''RKT_NETPLUGIN_COMMAND'' \<noteq> ''DEL'' \<longrightarrow>
      bridge_main env w =
        \<lparr>status = 1,
         logged = [Line (''Unknown RKT_NETPLUGIN_COMMAND: '' @ Getenv env ''RKT_NETPLUGIN_COMMAND'')],
         after = w\<rparr> \<and>
      veth_main env w = bridge_main env w)"
  by (auto simp: bridge_main_def veth_main_def Let_def)

theorem main_rejects_bad_invocation_witness:
  "bridge_main ex_env_no_netns ex_world =
     \<lparr>status = 1,
      logged = [Line ''Required env variable missing'', Line (''Env: '' @ Environ ex_env_no_netns)],
      after = ex_world\<rparr> \<and>
   veth_main ex_env_verb ex_world =
     \<lparr>status = 1, logged = [Line ''Unknown RKT_NETPLUGIN_COMMAND: CHECK''], after = ex_world\<rparr>"
proof -
  have a: "Getenv ex_env_no_netns ''RKT_NETPLUGIN_NETNS'' = []"
    by code_simp
  have b: "Getenv ex_env_verb ''RKT_NETPLUGIN_COMMAND'' = ''CHECK''"
    "Getenv ex_env_verb ''RKT_NETPLUGIN_CONTID'' = ex_cid"
    "Getenv ex_env_verb ''RKT_NETPLUGIN_NETNS'' = ''/ns/c1''"
    "Getenv ex_env_verb ''RKT_NETPLUGIN_IFNAME'' = ''eth0''"
    "Getenv ex_env_verb ''RKT_NETPLUGIN_NETCONF'' = ''/net/bridge.conf''"
    by (simp_all add: Getenv_def ex_env_verb_def)
  have c: "ex_cid \<noteq> []" by (simp add: ex_cid_def)
  show ?thesis
    using main_rejects_bad_invocation [of ex_env_no_netns ex_world]
      main_rejects_bad_invocation [of ex_env_verb ex_world] a b c
    by simp
qed

text \<open>
  Claim C9 as stated fails: an invocation without the namespace handle logs two lines,
  and neither names the missing parameter.
\<close>

theorem main_missing_parameter_counterexample:
  "status (bridge_main ex_env_no_netns ex_world) = 1 \<and>
   logged (bridge_main ex_env_no_netns ex_world) =
     [Line ''Required env variable missing'',
      Line ''Env: [RKT_NETPLUGIN_COMMAND=ADD RKT_NETPLUGIN_CONTID=6733c088-a507-4694-aabf-f8cc3e5b8a81 RKT_NETPLUGIN_IFNAME=eth0 RKT_NETPLUGIN_NETCONF=/net/bridge.conf]''] \<and>
   \<not> is_infix ''NETNS'' ''Required env variable missing'' \<and>
   \<not> is_infix ''NETNS'' ''Env: [RKT_NETPLUGIN_COMMAND=ADD RKT_NETPLUGIN_CONTID=6733c088-a507-4694-aabf-f8cc3e5b8a81 RKT_NETPLUGIN_IFNAME=eth0 RKT_NETPLUGIN_NETCONF=/net/bridge.conf]'' \<and>
   logged (veth_main ex_env_no_netns ex_world) = logged (bridge_main ex_env_no_netns ex_world)"
  by code_simp

section \<open>Attach after the veth pair exists\<close>

lemma kernel_op_dels:
  "\<not> is_LinkDel c \<Longrightarrow> kernel_op c f w = (r, w') \<Longrightarrow>
     filter is_LinkDel (calls w') = filter is_LinkDel (calls w)"
  by (auto simp: kernel_op_def record_call_simps put_ns_simps split: option.splits sum.splits)

lemma kernel_query_dels:
  "\<not> is_LinkDel c \<Longrightarrow> kernel_query c f w = (r, w') \<Longrightarrow>
     filter is_LinkDel (calls w') = filter is_LinkDel (calls w)"
  by (auto simp: kernel_query_def record_call_simps split: option.splits sum.splits)

lemma prim_dels:
  "LinkAdd l w = (r, w') \<Longrightarrow> filter is_LinkDel (calls w') = filter is_LinkDel (calls w)"
  "LinkByName n w = (q, w') \<Longrightarrow> filter is_LinkDel (calls w') = filter is_LinkDel (calls w)"
  "LinkSetUp l w = (r, w') \<Longrightarrow> filter is_LinkDel (calls w') = filter is_LinkDel (calls w)"
  "LinkSetMaster l m w = (r, w') \<Longrightarrow> filter is_LinkDel (calls w') = filter is_LinkDel (calls w)"
  "AddrList l w = (q', w') \<Longrightarrow> filter is_LinkDel (calls w') = filter is_LinkDel (calls w)"
  "AddrAdd l a w = (r, w') \<Longrightarrow> filter is_LinkDel (calls w') = filter is_LinkDel (calls w)"
  "RouteAdd rt w = (r, w') \<Longrightarrow> filter is_LinkDel (calls w') = filter is_LinkDel (calls w)"
  "SetNS ns w = (r, w') \<Longrightarrow> filter is_LinkDel (calls w') = filter is_LinkDel (calls w)"
  "LinkSetNs l ns w = (r, w') \<Longrightarrow> filter is_LinkDel (calls w') = filter is_LinkDel (calls w)"
  "PrintIfConfig ic w = (r, w') \<Longrightarrow> filter is_LinkDel (calls w') = filter is_LinkDel (calls w)"
  by (auto simp: LinkAdd_def LinkByName_def LinkSetUp_def LinkSetMaster_def AddrList_def
      AddrAdd_def RouteAdd_def SetNS_def LinkSetNs_def PrintIfConfig_def Let_def
      record_call_simps put_ns_simps
      dest!: kernel_op_dels[rotated] kernel_query_dels[rotated]
      split: option.splits sum.splits prod.splits if_splits)

lemma WithNetNSPath_dels:
  assumes "\<And>h v r v'. f h v = (r, v') \<Longrightarrow> filter is_LinkDel (calls v') = filter is_LinkDel (calls v)"
    and "WithNetNSPath p f w = (r, w')"
  shows "filter is_LinkDel (calls w') = filter is_LinkDel (calls w)"
  using assms(2)
  by (auto simp: WithNetNSPath_def Let_def dest!: prim_dels(8) assms(1)
      split: option.splits prod.splits)

lemma helper_dels:
  "ApplyIPConfig ifName c w = (r, w') \<Longrightarrow> filter is_LinkDel (calls w') = filter is_LinkDel (calls w)"
  "SetupVeth en cn ipn hns w = (q, w') \<Longrightarrow> filter is_LinkDel (calls w') = filter is_LinkDel (calls w)"
  "AddHostRoute dst gw dev w = (r, w') \<Longrightarrow> filter is_LinkDel (calls w') = filter is_LinkDel (calls w)"
  by (auto simp: ApplyIPConfig_def SetupVeth_def AddHostRoute_def Let_def
      dest!: prim_dels kernel_op_dels[rotated]
      split: option.splits sum.splits prod.splits if_splits)

lemma closure_dels:
  "(case SetupVeth en ifName None hostNS v of
      (Inl err, v1) \<Rightarrow> (Inl err, v1)
    | (Inr (hostVeth, contVeth), v1) \<Rightarrow>
        (case ApplyIPConfig ifName ipConf v1 of
           (Some err, v2) \<Rightarrow> (Inl err, v2)
         | (None, v2) \<Rightarrow> (Inr (Name hostVeth), v2))) = (r, v')
   \<Longrightarrow> filter is_LinkDel (calls v') = filter is_LinkDel (calls v)"
  by (auto dest!: helper_dels split: option.splits sum.splits prod.splits)

lemma netns_block_dels:
  assumes "WithNetNSPath netns
     (\<lambda>hostNS v.
        case SetupVeth en ifName None hostNS v of
          (Inl err, v1) \<Rightarrow> (Inl err, v1)
        | (Inr (hostVeth, contVeth), v1) \<Rightarrow>
            (case ApplyIPConfig ifName ipConf v1 of
               (Some err, v2) \<Rightarrow> (Inl err, v2)
             | (None, v2) \<Rightarrow> (Inr (Name hostVeth), v2))) w = (r, w')"
  shows "filter is_LinkDel (calls w') = filter is_LinkDel (calls w)"
  by (rule WithNetNSPath_dels[OF _ assms]) (rule closure_dels)

lemma bridge_dels:
  "ensureBridgeAddr br ipn w = (r, w') \<Longrightarrow> filter is_LinkDel (calls w') = filter is_LinkDel (calls w)"
  "bridgeByName n w = (q, w') \<Longrightarrow> filter is_LinkDel (calls w') = filter is_LinkDel (calls w)"
  by (auto simp: ensureBridgeAddr_def bridgeByName_def
      dest!: prim_dels split: option.splits sum.splits prod.splits if_splits)

lemma ensureBridge_dels:
  "ensureBridge n ipn w = (q, w') \<Longrightarrow> filter is_LinkDel (calls w') = filter is_LinkDel (calls w)"
  by (auto simp: ensureBridge_def Let_def
      dest!: prim_dels bridge_dels split: option.splits sum.splits prod.splits if_splits)

lemma setupBridge_dels:
  "setupBridge n c w = (q, w') \<Longrightarrow> filter is_LinkDel (calls w') = filter is_LinkDel (calls w)"
  by (auto simp: setupBridge_def Let_def
      dest!: ensureBridge_dels split: sum.splits prod.splits if_splits)

lemma setupVeth_dels:
  "setupVeth cid netns br ifName c w = (r, w') \<Longrightarrow> filter is_LinkDel (calls w') = filter is_LinkDel (calls w)"
  unfolding setupVeth_def
  by (auto dest!: prim_dels netns_block_dels
      split: option.splits sum.splits prod.splits)

text \<open>
  Claim C5, as the code has it. Neither plugin's \<open>cmdAdd\<close> ever makes a call that
  deletes a device, on any path: when a step after the creation of the veth pair fails,
  the error is returned and no removal of the pair is attempted.
\<close>

theorem cmdAdd_never_deletes:
  "filter is_LinkDel (calls (snd (bridge_cmdAdd contID netns netConf ifName w)))
     = filter is_LinkDel (calls w)
   \<and> filter is_LinkDel (calls (snd (veth_cmdAdd contID netns netConf ifName args w)))
     = filter is_LinkDel (calls w)"
proof
  obtain r w' where e: "bridge_cmdAdd contID netns netConf ifName w = (r, w')"
    by (cases "bridge_cmdAdd contID netns netConf ifName w")
  then have "filter is_LinkDel (calls w') = filter is_LinkDel (calls w)"
    unfolding bridge_cmdAdd_def
    by (auto dest!: setupBridge_dels setupVeth_dels prim_dels
        split: option.splits sum.splits prod.splits)
  with e show "filter is_LinkDel (calls (snd (bridge_cmdAdd contID netns netConf ifName w)))
     = filter is_LinkDel (calls w)" by simp
next
  obtain r w' where e: "veth_cmdAdd contID netns netConf ifName args w = (r, w')"
    by (cases "veth_cmdAdd contID netns netConf ifName args w")
  then have "filter is_LinkDel (calls w') = filter is_LinkDel (calls w)"
    unfolding veth_cmdAdd_def Let_def
    by (auto dest!: prim_dels helper_dels netns_block_dels
        split: option.splits sum.splits prod.splits if_splits)
  with e show "filter is_LinkDel (calls (snd (veth_cmdAdd contID netns netConf ifName args w)))
     = filter is_LinkDel (calls w)" by simp
qed

text \<open>
  Claim C5 as stated fails. In the bridge plugin, when attaching the host end to the
  bridge fails, the error is returned after the calls listed, none of which removes the
  pair, and both ends are still there. In the point-to-point plugin the same holds when
  applying the address inside the container namespace fails.
\<close>

theorem cmdAdd_cleanup_counterexample:
  "fst (bridge_cmdAdd ex_cid ''/ns/c1'' ''/net/bridge.conf'' ''eth0''
          (ex_faulty [(CLinkSetMaster ex_veth ''rkt0'', EPERM)])) =
     Some (FailedToConnect ex_veth ''rkt0'' (Errno EPERM)) \<and>
   calls (snd (bridge_cmdAdd ex_cid ''/ns/c1'' ''/net/bridge.conf'' ''eth0''
          (ex_faulty [(CLinkSetMaster ex_veth ''rkt0'', EPERM)]))) =
     [CLinkAdd ''rkt0'' Bridge, CLinkSetUp ''rkt0'', CAddrList ''rkt0'', CAddrAdd ''rkt0'' ex_gw,
      CSetNS (NSPath ''/ns/c1''), CVethAdd ex_veth ''eth0'', CLinkSetNs ex_veth HostNS,
      CLinkByName ''eth0'', CLinkSetUp ''eth0'', CAddrAdd ''eth0'' ex_ip, CSetNS HostNS,
      CLinkByName ex_veth, CLinkSetMaster ex_veth ''rkt0''] \<and>
   map (\<lambda>d. Name (attrs d)) (devices (get_ns HostNS
     (snd (bridge_cmdAdd ex_cid ''/ns/c1'' ''/net/bridge.conf'' ''eth0''
          (ex_faulty [(CLinkSetMaster ex_veth ''rkt0'', EPERM)]))))) = [''rkt0'', ex_veth] \<and>
   map (\<lambda>d. Name (attrs d)) (devices (get_ns (NSPath ''/ns/c1'')
     (snd (bridge_cmdAdd ex_cid ''/ns/c1'' ''/net/bridge.conf'' ''eth0''
          (ex_faulty [(CLinkSetMaster ex_veth ''rkt0'', EPERM)]))))) = [''eth0''] \<and>
   fst (veth_cmdAdd ex_cid ''/ns/c1'' ''/net/ptp.conf'' ''eth0'' []
          (ex_faulty [(CAddrAdd ''eth0'' ex_ip, ENOMEM)])) =
     Some (KernelOpError (Errno ENOMEM)) \<and>
   calls (snd (veth_cmdAdd ex_cid ''/ns/c1'' ''/net/ptp.conf'' ''eth0'' []
          (ex_faulty [(CAddrAdd ''eth0'' ex_ip, ENOMEM)]))) =
     [CSetNS (NSPath ''/ns/c1''), CVethAdd ex_veth ''eth0'', CLinkSetNs ex_veth HostNS,
      CLinkByName ''eth0'', CLinkSetUp ''eth0'', CAddrAdd ''eth0'' ex_ip, CSetNS HostNS] \<and>
   map (\<lambda>d. Name (attrs d)) (devices (get_ns HostNS
     (snd (veth_cmdAdd ex_cid ''/ns/c1'' ''/net/ptp.conf'' ''eth0'' []
          (ex_faulty [(CAddrAdd ''eth0'' ex_ip, ENOMEM)]))))) = [ex_veth]"
  by code_simp

section \<open>The host route of the point-to-point plugin\<close>

lemma LinkByName_name: "LinkByName n w = (Inr l, w') \<Longrightarrow> Name l = n"
  by (auto simp: LinkByName_eq find_dev_Some_name split: option.splits)

lemma kernel_op_calls_dest: "kernel_op c f w = (r, w') \<Longrightarrow> calls w' = calls w @ [c]"
  using kernel_op_calls[of c f w] by simp

lemma AddrAdd_calls: "AddrAdd l a w = (r, w') \<Longrightarrow> calls w' = calls w @ [CAddrAdd (Name l) a]"
  unfolding AddrAdd_def by (rule kernel_op_calls_dest)

lemma AddHostRoute_calls:
  "AddHostRoute dst gw dev w = (r, w') \<Longrightarrow> calls w' = calls w @ [CRouteAdd dst gw (Name dev)]"
  unfolding AddHostRoute_def RouteAdd_def by (drule kernel_op_calls_dest) simp

lemma PrintIfConfig_calls: "PrintIfConfig c w = (r, w') \<Longrightarrow> calls w' = calls w \<and> r = None"
  by (auto simp: PrintIfConfig_def)

lemma SetupVeth_name:
  "SetupVeth en cn ipn hns w = (Inr (hv, cv), w') \<Longrightarrow> Name hv = vethName en"
  by (auto simp: SetupVeth_def Let_def split: option.splits prod.splits)

lemma netns_block_name:
  assumes "WithNetNSPath netns
     (\<lambda>hostNS v.
        case SetupVeth en ifName None hostNS v of
          (Inl err, v1) \<Rightarrow> (Inl err, v1)
        | (Inr (hostVeth, contVeth), v1) \<Rightarrow>
            (case ApplyIPConfig ifName ipConf v1 of
               (Some err, v2) \<Rightarrow> (Inl err, v2)
             | (None, v2) \<Rightarrow> (Inr (Name hostVeth), v2))) w = (Inr hvn, w')"
  shows "hvn = vethName en"
  using assms
  by (auto simp: WithNetNSPath_def Let_def dest: SetupVeth_name
      split: option.splits prod.splits sum.splits)

lemma netns_block_error:
  assumes "WithNetNSPath netns
     (\<lambda>hostNS v.
        case SetupVeth en ifName None hostNS v of
          (Inl err, v1) \<Rightarrow> (Inl err, v1)
        | (Inr (hostVeth, contVeth), v1) \<Rightarrow>
            (case ApplyIPConfig ifName ipConf v1 of
               (Some err, v2) \<Rightarrow> (Inl err, v2)
             | (None, v2) \<Rightarrow> (Inr (Name hostVeth), v2))) w = (Inl e, w')"
  shows "(\<exists>x. e = NamespaceError x) \<or> (\<exists>x. e = KernelOpError x)"
  using assms
  by (auto simp: WithNetNSPath_def Let_def SetupVeth_def ApplyIPConfig_def
      split: option.splits prod.splits sum.splits)

text \<open>
  Claim C6, as the code has it. Whenever the point-to-point \<open>cmdAdd\<close> succeeds, its last
  two kernel calls assign the delegate's gateway with the mask \<open>/31\<close> to the host-side
  veth end and install a route through that end, without gateway, whose destination is
  that same address and mask. \<open>cmdAdd\<close> never fails with the route error for \<open>EEXIST\<close>.
  And whenever a run has assigned the host-side address, the answer of the route
  installation decides the result: on success and on \<open>EEXIST\<close> alike \<open>cmdAdd\<close> succeeds,
  having printed the container's address and done nothing else; on any other error it
  returns that error as the route error.
\<close>

theorem veth_cmdAdd_host_route:
  "(veth_cmdAdd contID netns netConf ifName args w = (None, w') \<longrightarrow>
      (\<exists>conf c cs.
         LoadNet netConf \<lparr>NetName = [], NetType = [], IPAM_Type = []\<rparr> w = Inr conf \<and>
         ExecPlugin (IPAM_Type conf) w = Inr c \<and>
         calls w' = cs @
           [CAddrAdd (vethName (contID @ ifName)) \<lparr>IP = Gateway c, Mask = CIDRMask 31 32\<rparr>,
            CRouteAdd \<lparr>IP = Gateway c, Mask = CIDRMask 31 32\<rparr> None (vethName (contID @ ifName))]))
   \<and> fst (veth_cmdAdd contID netns netConf ifName args w) \<noteq> Some (FailedToAddRoute (Errno EEXIST))
   \<and> (LoadNet netConf \<lparr>NetName = [], NetType = [], IPAM_Type = []\<rparr> w = Inr conf \<and>
       ExecPlugin (IPAM_Type conf) w = Inr c \<and>
       WithNetNSPath netns
          (\<lambda>hostNS v.
             case SetupVeth (contID @ ifName) ifName None hostNS v of
               (Inl err, v1) \<Rightarrow> (Inl err, v1)
             | (Inr (hostVeth, contVeth), v1) \<Rightarrow>
                 (case ApplyIPConfig ifName c v1 of
                    (Some err, v2) \<Rightarrow> (Inl err, v2)
                  | (None, v2) \<Rightarrow> (Inr (Name hostVeth), v2))) w = (Inr hvn, w1) \<and>
       LinkByName hvn w1 = (Inr hv, w2) \<and>
       AddrAdd hv \<lparr>IP = Gateway c, Mask = CIDRMask 31 32\<rparr> w2 = (None, w3) \<and>
       AddHostRoute \<lparr>IP = Gateway c, Mask = CIDRMask 31 32\<rparr> None hv w3 = (r, w4) \<longrightarrow>
         hvn = vethName (contID @ ifName) \<and> Name hv = hvn \<and>
         calls w4 = calls w2 @
           [CAddrAdd hvn \<lparr>IP = Gateway c, Mask = CIDRMask 31 32\<rparr>,
            CRouteAdd \<lparr>IP = Gateway c, Mask = CIDRMask 31 32\<rparr> None hvn] \<and>
         veth_cmdAdd contID netns netConf ifName args w =
           (if r = None \<or> r = Some (Errno EEXIST)
            then (None, w4\<lparr>stdout := stdout w4 @ [\<lparr>ifIP = IP (ipIP c)\<rparr>]\<rparr>)
            else (map_option FailedToAddRoute r, w4)))"
proof (intro conjI impI)
  assume "veth_cmdAdd contID netns netConf ifName args w = (None, w')"
  then show "\<exists>conf c cs.
         LoadNet netConf \<lparr>NetName = [], NetType = [], IPAM_Type = []\<rparr> w = Inr conf \<and>
         ExecPlugin (IPAM_Type conf) w = Inr c \<and>
         calls w' = cs @
           [CAddrAdd (vethName (contID @ ifName)) \<lparr>IP = Gateway c, Mask = CIDRMask 31 32\<rparr>,
            CRouteAdd \<lparr>IP = Gateway c, Mask = CIDRMask 31 32\<rparr> None (vethName (contID @ ifName))]"
    unfolding veth_cmdAdd_def Let_def
    by (auto dest!: netns_block_name LinkByName_name AddrAdd_calls AddHostRoute_calls
        PrintIfConfig_calls
        split: option.splits sum.splits prod.splits if_splits)
next
  show "fst (veth_cmdAdd contID netns netConf ifName args w) \<noteq> Some (FailedToAddRoute (Errno EEXIST))"
    unfolding veth_cmdAdd_def Let_def
    by (auto simp: os_IsExist_def PrintIfConfig_def ExecPlugin_def dest!: netns_block_error
        split: option.splits sum.splits prod.splits if_splits)
next
  assume a: "LoadNet netConf \<lparr>NetName = [], NetType = [], IPAM_Type = []\<rparr> w = Inr conf \<and>
       ExecPlugin (IPAM_Type conf) w = Inr c \<and>
       WithNetNSPath netns
          (\<lambda>hostNS v.
             case SetupVeth (contID @ ifName) ifName None hostNS v of
               (Inl err, v1) \<Rightarrow> (Inl err, v1)
             | (Inr (hostVeth, contVeth), v1) \<Rightarrow>
                 (case ApplyIPConfig ifName c v1 of
                    (Some err, v2) \<Rightarrow> (Inl err, v2)
                  | (None, v2) \<Rightarrow> (Inr (Name hostVeth), v2))) w = (Inr hvn, w1) \<and>
       LinkByName hvn w1 = (Inr hv, w2) \<and>
       AddrAdd hv \<lparr>IP = Gateway c, Mask = CIDRMask 31 32\<rparr> w2 = (None, w3) \<and>
       AddHostRoute \<lparr>IP = Gateway c, Mask = CIDRMask 31 32\<rparr> None hv w3 = (r, w4)"
  from a show n: "hvn = vethName (contID @ ifName)"
    by (auto dest: netns_block_name)
  from a show h: "Name hv = hvn"
    by (auto dest: LinkByName_name)
  from a h show "calls w4 = calls w2 @
           [CAddrAdd hvn \<lparr>IP = Gateway c, Mask = CIDRMask 31 32\<rparr>,
            CRouteAdd \<lparr>IP = Gateway c, Mask = CIDRMask 31 32\<rparr> None hvn]"
    by (auto dest!: AddrAdd_calls AddHostRoute_calls)
  from a show "veth_cmdAdd contID netns netConf ifName args w =
           (if r = None \<or> r = Some (Errno EEXIST)
            then (None, w4\<lparr>stdout := stdout w4 @ [\<lparr>ifIP = IP (ipIP c)\<rparr>]\<rparr>)
            else (map_option FailedToAddRoute r, w4))"
    by (auto simp: veth_cmdAdd_def Let_def os_IsExist_def PrintIfConfig_def split: option.splits)
qed

theorem veth_cmdAdd_host_route_witness:
  "(\<exists>conf c cs.
      LoadNet ''/net/ptp.conf'' \<lparr>NetName = [], NetType = [], IPAM_Type = []\<rparr> ex_world = Inr conf \<and>
      ExecPlugin (IPAM_Type conf) ex_world = Inr c \<and>
      calls (snd (veth_cmdAdd ex_cid ''/ns/c1'' ''/net/ptp.conf'' ''eth0'' [] ex_world)) = cs @
        [CAddrAdd (vethName (ex_cid @ ''eth0'')) \<lparr>IP = Gateway c, Mask = CIDRMask 31 32\<rparr>,
         CRouteAdd \<lparr>IP = Gateway c, Mask = CIDRMask 31 32\<rparr> None (vethName (ex_cid @ ''eth0''))]) \<and>
   (\<exists>w3 w4 hv.
      AddHostRoute \<lparr>IP = Some (ipv4 10 2 0 1), Mask = CIDRMask 31 32\<rparr> None hv w3 =
        (Some (Errno EEXIST), w4) \<and>
      veth_cmdAdd ex_cid ''/ns/c1'' ''/net/ptp.conf'' ''eth0'' [] ex_route_exists =
        (None, w4\<lparr>stdout := stdout w4 @ [\<lparr>ifIP = Some (ipv4 10 2 0 5)\<rparr>]\<rparr>))"
proof -
  let ?conf = "\<lparr>NetName = ''ptp'', NetType = ''veth'', IPAM_Type = ''gw-ipam''\<rparr>"
  let ?c = "\<lparr>ipIP = ex_ip, Gateway = Some (ipv4 10 2 0 1)\<rparr>"
  let ?gw = "\<lparr>IP = Gateway ?c, Mask = CIDRMask 31 32\<rparr>"
  let ?hv = "\<lparr>Name = ex_veth, Type = Veth, Up = False, Master = None\<rparr>"
  let ?B = "WithNetNSPath ''/ns/c1''
          (\<lambda>hostNS v.
             case SetupVeth (ex_cid @ ''eth0'') ''eth0'' None hostNS v of
               (Inl err, v1) \<Rightarrow> (Inl err, v1)
             | (Inr (hostVeth, contVeth), v1) \<Rightarrow>
                 (case ApplyIPConfig ''eth0'' ?c v1 of
                    (Some err, v2) \<Rightarrow> (Inl err, v2)
                  | (None, v2) \<Rightarrow> (Inr (Name hostVeth), v2))) ex_route_exists"
  let ?L = "LinkByName ex_veth (snd ?B)"
  let ?A = "AddrAdd ?hv ?gw (snd ?L)"
  let ?R = "AddHostRoute ?gw None ?hv (snd ?A)"
  have "fst (veth_cmdAdd ex_cid ''/ns/c1'' ''/net/ptp.conf'' ''eth0'' [] ex_world) = None"
    by code_simp
  then have h: "veth_cmdAdd ex_cid ''/ns/c1'' ''/net/ptp.conf'' ''eth0'' [] ex_world =
      (None, snd (veth_cmdAdd ex_cid ''/ns/c1'' ''/net/ptp.conf'' ''eth0'' [] ex_world))"
    by (simp add: prod_eq_iff)
  have l: "LoadNet ''/net/ptp.conf'' \<lparr>NetName = [], NetType = [], IPAM_Type = []\<rparr> ex_route_exists
      = Inr ?conf"
    by code_simp
  have x: "ExecPlugin (IPAM_Type ?conf) ex_route_exists = Inr ?c"
    by code_simp
  have "fst ?B = Inr ex_veth" by code_simp
  then have b: "?B = (Inr ex_veth, snd ?B)" by (simp add: prod_eq_iff)
  have "fst ?L = Inr ?hv" by code_simp
  then have lk: "?L = (Inr ?hv, snd ?L)" by (simp add: prod_eq_iff)
  have "fst ?A = None" by code_simp
  then have ad: "?A = (None, snd ?A)" by (simp add: prod_eq_iff)
  have "fst ?R = Some (Errno EEXIST)" by code_simp
  then have rt: "?R = (Some (Errno EEXIST), snd ?R)" by (simp add: prod_eq_iff)
  have ip: "IP (ipIP ?c) = Some (ipv4 10 2 0 5)" by (simp add: ex_ip_def)
  from veth_cmdAdd_host_route [where contID = ex_cid and netns = "''/ns/c1''"
      and netConf = "''/net/ptp.conf''" and ifName = "''eth0''" and args = "[]"
      and w = ex_route_exists and conf = ?conf and c = ?c and hvn = ex_veth and ?w1.0 = "snd ?B"
      and hv = ?hv and ?w2.0 = "snd ?L" and ?w3.0 = "snd ?A" and r = "Some (Errno EEXIST)"
      and ?w4.0 = "snd ?R"] l x b lk ad rt
  have "veth_cmdAdd ex_cid ''/ns/c1'' ''/net/ptp.conf'' ''eth0'' [] ex_route_exists =
      (None, (snd ?R)\<lparr>stdout := stdout (snd ?R) @ [\<lparr>ifIP = IP (ipIP ?c)\<rparr>]\<rparr>)"
    by simp
  with rt have e: "\<exists>w3 w4 hv.
      AddHostRoute \<lparr>IP = Some (ipv4 10 2 0 1), Mask = CIDRMask 31 32\<rparr> None hv w3 =
        (Some (Errno EEXIST), w4) \<and>
      veth_cmdAdd ex_cid ''/ns/c1'' ''/net/ptp.conf'' ''eth0'' [] ex_route_exists =
        (None, w4\<lparr>stdout := stdout w4 @ [\<lparr>ifIP = Some (ipv4 10 2 0 5)\<rparr>]\<rparr>)"
    unfolding ip by (simp only: IPConfig.simps) blast
  from veth_cmdAdd_host_route [of ex_cid "''/ns/c1''" "''/net/ptp.conf''" "''eth0''" "[]" ex_world] h e
  show ?thesis by blast
qed

text \<open>
  Claim C6 as stated fails. When the delegate assigns \<open>10.2.0.5/24\<close> and supplies the
  gateway \<open>10.2.0.1\<close>, Attach succeeds and the one host route installed has the
  destination \<open>10.2.0.1/31\<close>, not \<open>10.2.0.5/32\<close>, and the container's address does not
  lie in it.
\<close>

theorem veth_cmdAdd_host_route_counterexample:
  "ExecPlugin ''gw-ipam'' ex_world = Inr \<lparr>ipIP = ex_ip, Gateway = Some (ipv4 10 2 0 1)\<rparr> \<and>
   IPNet_String ex_ip = ''10.2.0.5/24'' \<and>
   fst (veth_cmdAdd ex_cid ''/ns/c1'' ''/net/ptp.conf'' ''eth0'' [] ex_world) = None \<and>
   routes (get_ns HostNS (snd (veth_cmdAdd ex_cid ''/ns/c1'' ''/net/ptp.conf'' ''eth0'' [] ex_world))) =
     [\<lparr>Dst = \<lparr>IP = Some (ipv4 10 2 0 1), Mask = CIDRMask 31 32\<rparr>, Gw = None, Dev = ex_veth\<rparr>] \<and>
   IPNet_String \<lparr>IP = Some (ipv4 10 2 0 1), Mask = CIDRMask 31 32\<rparr> = ''10.2.0.1/31'' \<and>
   IPNet_String \<lparr>IP = IP ex_ip, Mask = CIDRMask 32 32\<rparr> = ''10.2.0.5/32'' \<and>
   IP_Mask (IP ex_ip) (CIDRMask 31 32) \<noteq> IP_Mask (Some (ipv4 10 2 0 1)) (CIDRMask 31 32)"
  by code_simp

section \<open>The host-side address of the point-to-point plugin\<close>

text \<open>
  Claim C7 at an assignment without gateway. The delegate returns \<open>10.2.0.5/24\<close> and
  no gateway, for which the specification's gateway is \<open>10.2.0.1\<close>. The point-to-point
  \<open>cmdAdd\<close> computes nothing: its last call hands the kernel the nil address with the
  mask \<open>/31\<close>, the call fails, and the host-side veth end has no address.
\<close>

theorem veth_cmdAdd_without_gateway:
  "ExecPlugin ''test-ipam'' ex_world = Inr \<lparr>ipIP = ex_ip, Gateway = None\<rparr> \<and>
   spec_gateway \<lparr>ipIP = ex_ip, Gateway = None\<rparr> = Some (ipv4 10 2 0 1) \<and>
   fst (veth_cmdAdd ex_cid ''/ns/c1'' ''/net/ptp-nogw.conf'' ''eth0'' [] ex_world) =
     Some (FailedToAddAddrToVeth (Errno EINVAL)) \<and>
   last (calls (snd (veth_cmdAdd ex_cid ''/ns/c1'' ''/net/ptp-nogw.conf'' ''eth0'' [] ex_world))) =
     CAddrAdd ex_veth \<lparr>IP = None, Mask = CIDRMask 31 32\<rparr> \<and>
   map (\<lambda>d. (Name (attrs d), ips d)) (devices (get_ns HostNS
     (snd (veth_cmdAdd ex_cid ''/ns/c1'' ''/net/ptp-nogw.conf'' ''eth0'' [] ex_world)))) =
     [(ex_veth, [])]"
  by code_simp

end
